theory Spec2Isabelle
  imports Complex_Main
begin

section \<open>Configuration and environment\<close>

text \<open>
  The repository holds two content scripts with the same zone and calibration code and
  different constants: the WebGazer script (held in \<^verbatim>\<open>src/popup.js\<close> after the popup
  handlers) and the Python-server script (held in \<^verbatim>\<open>src/start_server.bat\<close> after the
  launcher). JavaScript numbers are modelled as real numbers and every reading of
  \<^verbatim>\<open>performance.now()\<close> or \<^verbatim>\<open>Date.now()\<close> inside one handler call as one
  argument \<open>now\<close> of the handler.
\<close>

datatype zone = SCROLL_UP | SCROLL_DOWN | MEDIA | ASK_AI | KILL_SWITCH

text \<open>The fields of \<^verbatim>\<open>CONFIG\<close> that both scripts have.\<close>

record config =
  SIDEBAR_WIDTH :: real
  ZONE_COUNT :: int
  DWELL_TIME :: real
  ZONE_SWITCH_DELAY :: real
  CALIBRATION_POINTS :: nat
  CLICKS_PER_POINT :: nat
  ZONES :: "zone list"
  STORAGE_KEY :: string

text \<open>The filtering and watchdog fields that only the WebGazer script has.\<close>

record wg_config = config +
  LERP_MARGIN :: real
  FILTER_ALPHA :: real
  KALMAN_ENABLED :: bool
  MOVING_AVG_SIZE :: nat
  VELOCITY_THRESHOLD :: real
  MIN_CONFIDENCE :: real
  OUTLIER_THRESHOLD :: real
  WATCHDOG_INTERVAL :: real
  WATCHDOG_TIMEOUT :: real

definition CONFIG_webgazer :: wg_config where
  "CONFIG_webgazer =
     \<lparr> SIDEBAR_WIDTH = 140, ZONE_COUNT = 5, DWELL_TIME = 650,
       ZONE_SWITCH_DELAY = 100, CALIBRATION_POINTS = 9, CLICKS_PER_POINT = 3,
       ZONES = [SCROLL_UP, SCROLL_DOWN, MEDIA, ASK_AI, KILL_SWITCH],
       STORAGE_KEY = ''eyecontrol_calibrated'',
       LERP_MARGIN = 8 / 100, FILTER_ALPHA = 1 / 2, KALMAN_ENABLED = True,
       MOVING_AVG_SIZE = 4, VELOCITY_THRESHOLD = 1200, MIN_CONFIDENCE = 3 / 10,
       OUTLIER_THRESHOLD = 200, WATCHDOG_INTERVAL = 3000, WATCHDOG_TIMEOUT = 5000 \<rparr>"

text \<open>The cursor smoothing factor that only the Python-server script has.\<close>

record py_config = config +
  CURSOR_SMOOTHING :: real

definition CONFIG_python :: py_config where
  "CONFIG_python =
     \<lparr> SIDEBAR_WIDTH = 140, ZONE_COUNT = 5, DWELL_TIME = 600,
       ZONE_SWITCH_DELAY = 100, CALIBRATION_POINTS = 9, CLICKS_PER_POINT = 2,
       ZONES = [SCROLL_UP, SCROLL_DOWN, MEDIA, ASK_AI, KILL_SWITCH],
       STORAGE_KEY = ''sharingan_python_calibrated'',
       CURSOR_SMOOTHING = 15 / 100 \<rparr>"

text \<open>
  What the handlers read from the page: the viewport size and whether the sidebar host
  element with its shadow root exists.
\<close>

record env =
  innerWidth :: real
  innerHeight :: real
  sidebarHost :: bool

section \<open>Session state\<close>

text \<open>
  A zone field of \<^verbatim>\<open>state\<close> holds \<^verbatim>\<open>null\<close>, a zone name, or \<^verbatim>\<open>undefined\<close> (what
  indexing \<^verbatim>\<open>CONFIG.ZONES\<close> out of range gives). Strict inequality tells the three
  apart; only a zone name is truthy.
\<close>

datatype zoneval = JNull | JUndefined | JZone zone

fun truthy :: "zoneval \<Rightarrow> bool" where
  "truthy (JZone z) = True"
| "truthy JNull = False"
| "truthy JUndefined = False"

text \<open>A number field that may hold \<^verbatim>\<open>null\<close>; in arithmetic \<^verbatim>\<open>null\<close> counts as 0.\<close>

fun num :: "real option \<Rightarrow> real" where
  "num None = 0"
| "num (Some v) = v"

text \<open>The fields of \<^verbatim>\<open>state\<close> that both scripts have.\<close>

record common_state =
  isActive :: bool
  isScrolling :: bool
  scrollDirection :: "string option"
  scrollIntervalId :: "nat option"
  currentZone :: zoneval
  pendingZone :: zoneval
  zoneSwitchTime :: "real option"
  dwellStartTime :: "real option"
  isCalibrated :: bool
  calibrationClicks :: nat

text \<open>
  One axis of the Kalman filter, \<^verbatim>\<open>{ x, p, q, r }\<close> in the source; the fields carry a
  prefix here so that they do not capture the variables of later statements.
\<close>

record kalman =
  kx :: real
  kp :: real
  kq :: real
  kr :: real

record sample =
  sx :: real
  sy :: real
  stime :: real

record wg_state = common_state +
  filteredX :: "real option"
  filteredY :: "real option"
  isWebGazerReady :: bool
  lastGazeTime :: real
  watchdogId :: "nat option"
  gazeBuffer :: "sample list"
  lastRawX :: "real option"
  lastRawY :: "real option"
  lastTimestamp :: "real option"
  velocityX :: real
  velocityY :: real
  kalmanX :: kalman
  kalmanY :: kalman

definition kalman_init :: kalman where
  "kalman_init = \<lparr> kx = 0, kp = 1000, kq = 8, kr = 20 \<rparr>"

definition wg_initial :: wg_state where
  "wg_initial =
     \<lparr> isActive = True, isScrolling = False, scrollDirection = None,
       scrollIntervalId = None, currentZone = JNull, pendingZone = JNull,
       zoneSwitchTime = None, dwellStartTime = None, isCalibrated = False,
       calibrationClicks = 0,
       filteredX = None, filteredY = None, isWebGazerReady = False, lastGazeTime = 0,
       watchdogId = None, gazeBuffer = [], lastRawX = None, lastRawY = None,
       lastTimestamp = None, velocityX = 0, velocityY = 0,
       kalmanX = kalman_init, kalmanY = kalman_init \<rparr>"

text \<open>The Python-server script: the gaze target from the server and the animated position.\<close>

record py_state = common_state +
  isConnected :: bool
  gazeX :: "real option"
  gazeY :: "real option"
  displayX :: "real option"
  displayY :: "real option"

definition py_initial :: py_state where
  "py_initial =
     \<lparr> isActive = True, isScrolling = False, scrollDirection = None,
       scrollIntervalId = None, currentZone = JNull, pendingZone = JNull,
       zoneSwitchTime = None, dwellStartTime = None, isCalibrated = False,
       calibrationClicks = 0,
       isConnected = False, gazeX = None, gazeY = None, displayX = None,
       displayY = None \<rparr>"

section \<open>Zone resolution\<close>

text \<open>\<^verbatim>\<open>CONFIG.ZONES[i]\<close>: \<^verbatim>\<open>undefined\<close> outside the array.\<close>

definition zoneAt :: "'a config_scheme \<Rightarrow> int \<Rightarrow> zoneval" where
  "zoneAt cfg i =
     (if 0 \<le> i \<and> i < int (length (ZONES cfg)) then JZone (ZONES cfg ! nat i)
      else JUndefined)"

text \<open>
  \<^verbatim>\<open>getZoneFromY\<close>. Only \<^verbatim>\<open>Math.min\<close> is applied to the index. A zone height of 0
  makes the quotient infinite or not a number in the source: the index is then the last one
  for a positive \<open>y\<close>, and no array element otherwise.
\<close>

definition zoneIndex :: "'a config_scheme \<Rightarrow> env \<Rightarrow> real \<Rightarrow> int option" where
  "zoneIndex cfg w y =
     (let zoneHeight = innerHeight w / real_of_int (ZONE_COUNT cfg)
      in if zoneHeight = 0
         then (if 0 < y then Some (ZONE_COUNT cfg - 1) else None)
         else Some (min \<lfloor>y / zoneHeight\<rfloor> (ZONE_COUNT cfg - 1)))"

definition getZoneFromY :: "'a config_scheme \<Rightarrow> env \<Rightarrow> real \<Rightarrow> zoneval" where
  "getZoneFromY cfg w y =
     (case zoneIndex cfg w y of None \<Rightarrow> JUndefined | Some i \<Rightarrow> zoneAt cfg i)"

definition isInSidebar :: "'a config_scheme \<Rightarrow> env \<Rightarrow> real \<Rightarrow> bool" where
  "isInSidebar cfg w x = (x \<ge> innerWidth w - SIDEBAR_WIDTH cfg)"

text \<open>
  The index as the specification words it, for five zones: the floor clamped from both
  sides. It is compared with \<open>getZoneFromY\<close> below.
\<close>

definition specZoneIndex :: "real \<Rightarrow> real \<Rightarrow> int" where
  "specZoneIndex h y = max 0 (min \<lfloor>y / (h / 5)\<rfloor> 4)"

section \<open>Zone hysteresis and dwell\<close>

text \<open>
  \<^verbatim>\<open>stopScrolling\<close> of the WebGazer script and of the Python-server script (which
  leaves \<^verbatim>\<open>scrollDirection\<close> alone).
\<close>

definition stopScrolling :: "'a common_state_scheme \<Rightarrow> 'a common_state_scheme" where
  "stopScrolling st =
     st\<lparr> scrollIntervalId := None, isScrolling := False, scrollDirection := None \<rparr>"

definition py_stopScrolling :: "'a common_state_scheme \<Rightarrow> 'a common_state_scheme" where
  "py_stopScrolling st = st\<lparr> scrollIntervalId := None, isScrolling := False \<rparr>"

text \<open>The two scripts; each calls its own \<^verbatim>\<open>stopScrolling\<close>.\<close>

datatype script = WebGazer | PythonServer

fun stopScrollingOf :: "script \<Rightarrow> 'a common_state_scheme \<Rightarrow> 'a common_state_scheme" where
  "stopScrollingOf WebGazer st = stopScrolling st"
| "stopScrollingOf PythonServer st = py_stopScrolling st"

text \<open>
  \<^verbatim>\<open>handleZoneAction\<close>: the scroll, media and assistant actions act on the page only; the
  kill switch stops scrolling and clears \<^verbatim>\<open>isActive\<close> (a timer sets it again 3000 ms
  later, \<open>killSwitchTimer\<close>). The caller records the call as a dispatched zone.
\<close>

definition handleZoneAction ::
  "script \<Rightarrow> zone \<Rightarrow> 'a common_state_scheme \<Rightarrow> 'a common_state_scheme" where
  "handleZoneAction sc z st =
     (case z of KILL_SWITCH \<Rightarrow> (stopScrollingOf sc st)\<lparr> isActive := False \<rparr> | _ \<Rightarrow> st)"

definition killSwitchTimer :: "'a common_state_scheme \<Rightarrow> 'a common_state_scheme" where
  "killSwitchTimer st = st\<lparr> isActive := True \<rparr>"

text \<open>
  The body shared by \<^verbatim>\<open>updateGazePosition\<close> (WebGazer script) and
  \<^verbatim>\<open>updateZoneFromGaze\<close> (Python-server script). The result is the new state and the
  zones whose action was dispatched by this call.
\<close>

definition zoneStep ::
  "script \<Rightarrow> 'c config_scheme \<Rightarrow> env \<Rightarrow> real \<Rightarrow> real \<Rightarrow> real \<Rightarrow>
   'a common_state_scheme \<Rightarrow> 'a common_state_scheme \<times> zone list" where
  "zoneStep sc cfg w now x y st =
     (if \<not> sidebarHost w then (st, [])
      else if isInSidebar cfg w x then
        (let zone = getZoneFromY cfg w y;
             st1 = (if zone \<noteq> currentZone st then
                      (if zone \<noteq> pendingZone st then
                         st\<lparr> pendingZone := zone, zoneSwitchTime := Some now \<rparr>
                       else if now - num (zoneSwitchTime st) \<ge> ZONE_SWITCH_DELAY cfg then
                         stopScrollingOf sc
                           (st\<lparr> currentZone := zone, pendingZone := JNull,
                                dwellStartTime := Some now \<rparr>)
                       else st)
                    else st\<lparr> pendingZone := JNull \<rparr>)
         in (case currentZone st1 of
               JZone z \<Rightarrow>
                 if now - num (dwellStartTime st1) \<ge> DWELL_TIME cfg
                 then ((handleZoneAction sc z st1)\<lparr> dwellStartTime := Some now \<rparr>, [z])
                 else (st1, [])
             | _ \<Rightarrow> (st1, [])))
      else if truthy (currentZone st) then
        (stopScrollingOf sc
           (st\<lparr> currentZone := JNull, pendingZone := JNull, dwellStartTime := None \<rparr>), [])
      else (st, []))"

definition updateGazePosition ::
  "'c config_scheme \<Rightarrow> env \<Rightarrow> real \<Rightarrow> real \<Rightarrow> real \<Rightarrow> wg_state \<Rightarrow> wg_state \<times> zone list" where
  "updateGazePosition = zoneStep WebGazer"

definition updateZoneFromGaze ::
  "'c config_scheme \<Rightarrow> env \<Rightarrow> real \<Rightarrow> real \<Rightarrow> real \<Rightarrow> py_state \<Rightarrow> py_state \<times> zone list" where
  "updateZoneFromGaze = zoneStep PythonServer"

text \<open>
  One animation frame of the Python-server script (\<^verbatim>\<open>animate\<close> inside
  \<^verbatim>\<open>startCursorAnimation\<close>): it moves the displayed position toward the gaze target
  and evaluates the zones at the displayed position. It reads neither \<^verbatim>\<open>isActive\<close>
  nor \<^verbatim>\<open>isCalibrated\<close>.
\<close>

definition animate :: "py_config \<Rightarrow> env \<Rightarrow> real \<Rightarrow> py_state \<Rightarrow> py_state \<times> zone list" where
  "animate cfg w now st =
     (if gazeX st = None \<or> gazeY st = None then (st, [])
      else
        (let st1 = (if displayX st = None
                    then st\<lparr> displayX := gazeX st, displayY := gazeY st \<rparr> else st);
             smoothing = CURSOR_SMOOTHING cfg;
             dx = num (displayX st1) + (num (gazeX st1) - num (displayX st1)) * smoothing;
             dy = num (displayY st1) + (num (gazeY st1) - num (displayY st1)) * smoothing
         in updateZoneFromGaze cfg w now dx dy
              (st1\<lparr> displayX := Some dx, displayY := Some dy \<rparr>)))"

text \<open>
  A sequence of evaluations \<open>(now, x, y)\<close>, in order: the final state and all dispatched
  zones.
\<close>

fun runTicks ::
  "script \<Rightarrow> 'c config_scheme \<Rightarrow> env \<Rightarrow> 'a common_state_scheme \<Rightarrow>
   (real \<times> real \<times> real) list \<Rightarrow> 'a common_state_scheme \<times> zone list" where
  "runTicks sc cfg w st [] = (st, [])"
| "runTicks sc cfg w st ((now, x, y) # ts) =
     (case zoneStep sc cfg w now x y st of
        (st1, a1) \<Rightarrow> (case runTicks sc cfg w st1 ts of (st2, a2) \<Rightarrow> (st2, a1 @ a2)))"

text \<open>An evaluation that holds zone \<open>z\<close>: inside the strip and resolving to \<open>z\<close>.\<close>

definition holds :: "'c config_scheme \<Rightarrow> env \<Rightarrow> zone \<Rightarrow> real \<times> real \<times> real \<Rightarrow> bool" where
  "holds cfg w z e =
     (case e of (now, x, y) \<Rightarrow> isInSidebar cfg w x \<and> getZoneFromY cfg w y = JZone z)"

section \<open>Filtering pipeline of the WebGazer script\<close>

text \<open>
  \<^verbatim>\<open>lerpCoordinate\<close>. The range is 0 only for a viewport size of 0, where the source
  divides by zero; the theorems below do not depend on the value there.
\<close>

definition lerpCoordinate :: "wg_config \<Rightarrow> real \<Rightarrow> real \<Rightarrow> real" where
  "lerpCoordinate cfg v viewportSize =
     (let minMargin = LERP_MARGIN cfg * viewportSize;
          maxMargin = (1 - LERP_MARGIN cfg) * viewportSize;
          range = maxMargin - minMargin;
          normalized = (v - minMargin) / range
      in max 0 (min 1 normalized) * viewportSize)"

definition applyLowPassFilter :: "wg_config \<Rightarrow> real \<Rightarrow> real option \<Rightarrow> real" where
  "applyLowPassFilter cfg newValue oldValue =
     (case oldValue of None \<Rightarrow> newValue
      | Some old \<Rightarrow> old + FILTER_ALPHA cfg * (newValue - old))"

text \<open>
  \<^verbatim>\<open>kalmanFilter\<close> mutates the axis state and returns its new \<^verbatim>\<open>x\<close>. The gain
  divides by \<open>predictedP + r\<close>, which is positive for the noise values of the code; the
  theorems on the filter assume \<open>q > 0\<close>, \<open>r > 0\<close> and \<open>p \<ge> 0\<close>.
\<close>

definition kalmanFilter :: "real \<Rightarrow> kalman \<Rightarrow> kalman" where
  "kalmanFilter measurement ks =
     (let predictedX = kx ks;
          predictedP = kp ks + kq ks;
          k = predictedP / (predictedP + kr ks)
      in ks\<lparr> kx := predictedX + k * (measurement - predictedX),
             kp := (1 - k) * predictedP \<rparr>)"

text \<open>Feeding the same measurement \<open>n\<close> times.\<close>

fun kalmanFeed :: "real \<Rightarrow> nat \<Rightarrow> kalman \<Rightarrow> kalman" where
  "kalmanFeed m 0 ks = ks"
| "kalmanFeed m (Suc n) ks = kalmanFeed m n (kalmanFilter m ks)"

text \<open>A number of steps computed from \<open>q\<close> and \<open>r\<close> alone.\<close>

definition kalmanSteps :: "real \<Rightarrow> real \<Rightarrow> nat" where
  "kalmanSteps q r = nat \<lceil>99 * r / q\<rceil>"

record velocity =
  vx :: real
  vy :: real
  speed :: real

definition calculateVelocity :: "real \<Rightarrow> real \<Rightarrow> real \<Rightarrow> wg_state \<Rightarrow> wg_state \<times> velocity" where
  "calculateVelocity newX newY timestamp st =
     (if lastRawX st = None \<or> lastTimestamp st = None then
        (st\<lparr> lastRawX := Some newX, lastRawY := Some newY, lastTimestamp := Some timestamp \<rparr>,
         \<lparr> vx = 0, vy = 0, speed = 0 \<rparr>)
      else
        (let dt = (timestamp - num (lastTimestamp st)) / 1000
         in if dt \<le> 0 then
              (st, \<lparr> vx = velocityX st, vy = velocityY st,
                     speed = sqrt ((velocityX st)\<^sup>2 + (velocityY st)\<^sup>2) \<rparr>)
            else
              (let vx' = (newX - num (lastRawX st)) / dt;
                   vy' = (newY - num (lastRawY st)) / dt;
                   speed' = sqrt (vx' * vx' + vy' * vy')
               in (st\<lparr> lastRawX := Some newX, lastRawY := Some newY,
                       lastTimestamp := Some timestamp,
                       velocityX := vx', velocityY := vy' \<rparr>,
                   \<lparr> vx = vx', vy = vy', speed = speed' \<rparr>))))"

definition isOutlier :: "wg_config \<Rightarrow> real \<Rightarrow> real \<Rightarrow> wg_state \<Rightarrow> bool" where
  "isOutlier cfg newX newY st =
     (case (filteredX st, filteredY st) of
        (Some fx, Some fy) \<Rightarrow>
          sqrt ((newX - fx)\<^sup>2 + (newY - fy)\<^sup>2) > OUTLIER_THRESHOLD cfg
      | _ \<Rightarrow> False)"

text \<open>
  \<^verbatim>\<open>processGazeData\<close>: the confidence is absent when the sample carries none. The result
  is \<^verbatim>\<open>null\<close> or a position \<^verbatim>\<open>{x, y}\<close>; the hold-steady position copies
  \<^verbatim>\<open>state.filteredY\<close> as it is, hence the optional second component.
\<close>

definition processGazeData ::
  "wg_config \<Rightarrow> env \<Rightarrow> real \<Rightarrow> real \<Rightarrow> real \<Rightarrow> real option \<Rightarrow> wg_state \<Rightarrow>
   wg_state \<times> (real \<times> real option) option" where
  "processGazeData cfg w rawX rawY timestamp conf st =
     (if (case conf of Some c \<Rightarrow> c < MIN_CONFIDENCE cfg | None \<Rightarrow> False) then (st, None)
      else
        (let lerpedX = lerpCoordinate cfg rawX (innerWidth w);
             lerpedY = lerpCoordinate cfg rawY (innerHeight w)
         in case calculateVelocity lerpedX lerpedY timestamp st of
              (st1, vel) \<Rightarrow>
                if speed vel > VELOCITY_THRESHOLD cfg then (st1, None)
                else if isOutlier cfg lerpedX lerpedY st1 then
                  (st1, case filteredX st1 of
                          Some fx \<Rightarrow> Some (fx, filteredY st1)
                        | None \<Rightarrow> None)
                else if KALMAN_ENABLED cfg then
                  (let kX = kalmanFilter lerpedX (kalmanX st1);
                       kY = kalmanFilter lerpedY (kalmanY st1)
                   in (st1\<lparr> kalmanX := kX, kalmanY := kY,
                            filteredX := Some (kx kX), filteredY := Some (kx kY) \<rparr>,
                       Some (kx kX, Some (kx kY))))
                else
                  (let fX = applyLowPassFilter cfg lerpedX (filteredX st1);
                       fY = applyLowPassFilter cfg lerpedY (filteredY st1)
                   in (st1\<lparr> filteredX := Some fX, filteredY := Some fY \<rparr>,
                       Some (fX, Some fY)))))"

text \<open>
  The gaze listener installed by \<^verbatim>\<open>initWebGazer\<close>: \<open>data\<close> is absent when WebGazer
  reports no prediction; \<open>dateNow\<close> and \<open>perfNow\<close> are the two clocks it reads.
\<close>

record gazedata =
  gx :: real
  gy :: real
  confidence :: "real option"

definition gazeListener ::
  "wg_config \<Rightarrow> env \<Rightarrow> real \<Rightarrow> real \<Rightarrow> gazedata option \<Rightarrow> wg_state \<Rightarrow>
   wg_state \<times> zone list" where
  "gazeListener cfg w dateNow perfNow data st =
     (case data of None \<Rightarrow> (st, [])
      | Some d \<Rightarrow>
          (let st1 = st\<lparr> lastGazeTime := dateNow \<rparr>
           in if \<not> isActive st1 \<or> \<not> isCalibrated st1 then (st1, [])
              else (case processGazeData cfg w (gx d) (gy d) perfNow (confidence d) st1 of
                      (st2, None) \<Rightarrow> (st2, [])
                    | (st2, Some (x, y)) \<Rightarrow> updateGazePosition cfg w perfNow x (num y) st2)))"

section \<open>Calibration gate\<close>

text \<open>
  The page around the session state: \<^verbatim>\<open>localStorage\<close> (absent when every access to it
  throws, which the source catches) and the calibration overlay with its nine dots, if it
  is shown. A dot keeps its own click count; \<open>clickable\<close> is cleared when the handler
  sets \<^verbatim>\<open>pointerEvents\<close> to \<^verbatim>\<open>none\<close>.
\<close>

record dot =
  dotClicks :: nat
  clickable :: bool

record 's page =
  pstate :: 's
  localStorage :: "(string \<rightharpoonup> string) option"
  overlay :: "dot list option"

definition isCalibrationDone :: "'c config_scheme \<Rightarrow> 's page \<Rightarrow> bool" where
  "isCalibrationDone cfg pg =
     (case localStorage pg of None \<Rightarrow> False
      | Some m \<Rightarrow> m (STORAGE_KEY cfg) = Some ''true'')"

definition setCalibrationDone :: "'c config_scheme \<Rightarrow> 's page \<Rightarrow> 's page" where
  "setCalibrationDone cfg pg =
     pg\<lparr> localStorage := map_option (\<lambda>m. m(STORAGE_KEY cfg \<mapsto> ''true'')) (localStorage pg) \<rparr>"

text \<open>
  \<^verbatim>\<open>resetCalibration\<close> of the WebGazer script (it also asks WebGazer to clear its data)
  and of the Python-server script (it also sends \<^verbatim>\<open>reset_calibration\<close>).
\<close>

definition resetCalibration :: "'c config_scheme \<Rightarrow> 's page \<Rightarrow> 's page" where
  "resetCalibration cfg pg =
     pg\<lparr> localStorage := map_option (\<lambda>m. m(STORAGE_KEY cfg := None)) (localStorage pg) \<rparr>"

definition py_resetCalibration ::
  "'c config_scheme \<Rightarrow> 'a common_state_scheme page \<Rightarrow> 'a common_state_scheme page" where
  "py_resetCalibration cfg pg =
     pg\<lparr> pstate := (pstate pg)\<lparr> isCalibrated := False, calibrationClicks := 0 \<rparr>,
         localStorage := map_option (\<lambda>m. m(STORAGE_KEY cfg := None)) (localStorage pg) \<rparr>"

definition freshDots :: "dot list" where
  "freshDots = replicate 9 \<lparr> dotClicks = 0, clickable = True \<rparr>"

definition createCalibrationOverlay ::
  "'c config_scheme \<Rightarrow> 'a common_state_scheme page \<Rightarrow> 'a common_state_scheme page" where
  "createCalibrationOverlay cfg pg =
     (if isCalibrationDone cfg pg
      then pg\<lparr> pstate := (pstate pg)\<lparr> isCalibrated := True \<rparr> \<rparr>
      else pg\<lparr> overlay := Some freshDots \<rparr>)"

text \<open>
  \<^verbatim>\<open>finishCalibration\<close>; the overlay fades for 500 ms before it is removed, which is
  modelled as removed at once.
\<close>

definition finishCalibration ::
  "'c config_scheme \<Rightarrow> 'a common_state_scheme page \<Rightarrow> 'a common_state_scheme page" where
  "finishCalibration cfg pg =
     setCalibrationDone cfg
       (pg\<lparr> overlay := None, pstate := (pstate pg)\<lparr> isCalibrated := True \<rparr> \<rparr>)"

text \<open>A click reaches a dot only if the overlay is shown and the dot takes pointer events.\<close>

definition canClick :: "nat \<Rightarrow> 's page \<Rightarrow> bool" where
  "canClick i pg =
     (case overlay pg of None \<Rightarrow> False
      | Some ds \<Rightarrow> i < length ds \<and> clickable (ds ! i))"

text \<open>
  The click handler of dot \<open>i\<close>. The second component tells whether the handler
  scheduled \<^verbatim>\<open>finishCalibration\<close> (through a 500 ms timer).
\<close>

definition dotClick ::
  "'c config_scheme \<Rightarrow> nat \<Rightarrow> 'a common_state_scheme page \<Rightarrow>
   'a common_state_scheme page \<times> bool" where
  "dotClick cfg i pg =
     (case overlay pg of None \<Rightarrow> (pg, False)
      | Some ds \<Rightarrow>
          if i < length ds \<and> clickable (ds ! i) then
            (let n = dotClicks (ds ! i) + 1
             in if n \<ge> CLICKS_PER_POINT cfg then
                  (let c = calibrationClicks (pstate pg) + 1
                   in (pg\<lparr> overlay := Some (ds[i := \<lparr> dotClicks = n, clickable = False \<rparr>]),
                           pstate := (pstate pg)\<lparr> calibrationClicks := c \<rparr> \<rparr>,
                       c \<ge> CALIBRATION_POINTS cfg))
                else (pg\<lparr> overlay := Some (ds[i := (ds ! i)\<lparr> dotClicks := n \<rparr>]) \<rparr>, False))
          else (pg, False))"

text \<open>
  A sequence of dot clicks; a scheduled \<^verbatim>\<open>finishCalibration\<close> runs before the next
  click.
\<close>

fun clickDots ::
  "'c config_scheme \<Rightarrow> 'a common_state_scheme page \<Rightarrow> nat list \<Rightarrow>
   'a common_state_scheme page" where
  "clickDots cfg pg [] = pg"
| "clickDots cfg pg (i # cs) =
     (case dotClick cfg i pg of
        (pg1, True) \<Rightarrow> clickDots cfg (finishCalibration cfg pg1) cs
      | (pg1, False) \<Rightarrow> clickDots cfg pg1 cs)"

text \<open>Every click of the sequence lands on a dot that takes it.\<close>

fun validClicks :: "'c config_scheme \<Rightarrow> 'a common_state_scheme page \<Rightarrow> nat list \<Rightarrow> bool" where
  "validClicks cfg pg [] = True"
| "validClicks cfg pg (i # cs) =
     (canClick i pg \<and>
      (case dotClick cfg i pg of
         (pg1, True) \<Rightarrow> validClicks cfg (finishCalibration cfg pg1) cs
       | (pg1, False) \<Rightarrow> validClicks cfg pg1 cs))"

text \<open>
  The click handler of the recalibration button: the WebGazer script resets the two state
  fields in the handler, the Python-server script inside \<^verbatim>\<open>resetCalibration\<close>.
\<close>

definition recalibrate ::
  "'c config_scheme \<Rightarrow> 'a common_state_scheme page \<Rightarrow> 'a common_state_scheme page" where
  "recalibrate cfg pg =
     createCalibrationOverlay cfg
       ((resetCalibration cfg pg)
          \<lparr> pstate := (pstate (resetCalibration cfg pg))
                        \<lparr> isCalibrated := False, calibrationClicks := 0 \<rparr> \<rparr>)"

definition py_recalibrate ::
  "'c config_scheme \<Rightarrow> 'a common_state_scheme page \<Rightarrow> 'a common_state_scheme page" where
  "py_recalibrate cfg pg = createCalibrationOverlay cfg (py_resetCalibration cfg pg)"

text \<open>A session starts with the initial state and no overlay; the storage outlives it.\<close>

definition newSession :: "'s \<Rightarrow> (string \<rightharpoonup> string) option \<Rightarrow> 's page" where
  "newSession s0 store = \<lparr> pstate = s0, localStorage = store, overlay = None \<rparr>"

text \<open>
  The invariant of a calibration in progress, used in the proofs: the overlay shows nine
  dots, an open dot has fewer than \<^verbatim>\<open>CLICKS_PER_POINT\<close> clicks and a closed one exactly
  that many, \<^verbatim>\<open>calibrationClicks\<close> counts the closed dots and is below nine, the session
  is not calibrated, and \<open>t\<close> clicks have been taken in all.
\<close>

definition collecting :: "'c config_scheme \<Rightarrow> 'a common_state_scheme page \<Rightarrow> nat \<Rightarrow> bool" where
  "collecting cfg pg t =
     (case overlay pg of None \<Rightarrow> False
      | Some ds \<Rightarrow>
          length ds = 9 \<and>
          (\<forall>d\<in>set ds. if clickable d then dotClicks d < CLICKS_PER_POINT cfg
                       else dotClicks d = CLICKS_PER_POINT cfg) \<and>
          calibrationClicks (pstate pg) = length (filter (\<lambda>d. \<not> clickable d) ds) \<and>
          calibrationClicks (pstate pg) < 9 \<and>
          \<not> isCalibrated (pstate pg) \<and>
          sum_list (map dotClicks ds) = t)"

section \<open>Messages of the Python server\<close>

datatype message =
    Gaze real real
  | Frame
  | CalibrationAck nat bool
  | CalibrationReset
  | OtherMessage

text \<open>
  \<^verbatim>\<open>handleServerMessage\<close>; \<^verbatim>\<open>updateGazePosition\<close> of this script only stores the target
  again.
\<close>

definition handleServerMessage :: "'c config_scheme \<Rightarrow> message \<Rightarrow> py_state page \<Rightarrow> py_state page" where
  "handleServerMessage cfg msg pg =
     (case msg of
        Gaze x y \<Rightarrow>
          if isActive (pstate pg) \<and> isCalibrated (pstate pg)
          then pg\<lparr> pstate := (pstate pg)\<lparr> gazeX := Some x, gazeY := Some y \<rparr> \<rparr>
          else pg
      | Frame \<Rightarrow> pg
      | CalibrationAck n done \<Rightarrow> if done then finishCalibration cfg pg else pg
      | CalibrationReset \<Rightarrow>
          pg\<lparr> pstate := (pstate pg)\<lparr> isCalibrated := False, calibrationClicks := 0 \<rparr> \<rparr>
      | OtherMessage \<Rightarrow> pg)"

section \<open>Liveness watchdog of the WebGazer script\<close>

text \<open>
  The upstream library as the handlers see it: whether \<^verbatim>\<open>webgazer\<close> is defined and
  which of the calls used here throw.
\<close>

record upstream =
  webgazerDefined :: bool
  beginThrows :: bool
  pauseThrows :: bool
  endThrows :: bool

datatype recovery = Pause_then_resume_in_500 | End_then_init_in_1000

text \<open>
  \<^verbatim>\<open>initWebGazer\<close> as far as the state goes: once the listener is installed, it marks
  WebGazer ready, stamps \<^verbatim>\<open>lastGazeTime\<close> and starts the watchdog.
\<close>

definition initWebGazer :: "upstream \<Rightarrow> real \<Rightarrow> wg_state \<Rightarrow> wg_state" where
  "initWebGazer up now st =
     (if \<not> webgazerDefined up then st
      else if beginThrows up then st
      else st\<lparr> isWebGazerReady := True, lastGazeTime := now \<rparr>)"

text \<open>\<^verbatim>\<open>recoverWebGazer\<close>: what it does to the upstream library, if anything.\<close>

definition recoverWebGazer :: "upstream \<Rightarrow> recovery option" where
  "recoverWebGazer up =
     (if \<not> webgazerDefined up then None
      else if \<not> pauseThrows up then Some Pause_then_resume_in_500
      else if \<not> endThrows up then Some End_then_init_in_1000
      else None)"

text \<open>The timer callback of the soft recovery: resume and stamp \<^verbatim>\<open>lastGazeTime\<close>.\<close>

definition resumeTimer :: "real \<Rightarrow> wg_state \<Rightarrow> wg_state" where
  "resumeTimer now st = st\<lparr> lastGazeTime := now \<rparr>"

text \<open>
  One run of the interval callback of \<^verbatim>\<open>startWatchdog\<close>: whether it called
  \<^verbatim>\<open>recoverWebGazer\<close>. The callback itself leaves the state as it is.
\<close>

definition watchdogTick :: "wg_config \<Rightarrow> real \<Rightarrow> wg_state \<Rightarrow> bool" where
  "watchdogTick cfg now st =
     (if \<not> isCalibrated st \<or> \<not> isWebGazerReady st then False
      else (let timeSinceLastGaze = now - lastGazeTime st
            in lastGazeTime st > 0 \<and> timeSinceLastGaze > WATCHDOG_TIMEOUT cfg))"

section \<open>Viewport resize\<close>

text \<open>The \<^verbatim>\<open>resize\<close> listener of the WebGazer script.\<close>

definition onResize :: "wg_state \<Rightarrow> wg_state" where
  "onResize st =
     st\<lparr> filteredX := None, filteredY := None, gazeBuffer := [],
         lastRawX := None, lastRawY := None, lastTimestamp := None,
         velocityX := 0, velocityY := 0,
         kalmanX := \<lparr> kx = 0, kp = 1000, kq = 8, kr = 20 \<rparr>,
         kalmanY := \<lparr> kx = 0, kp = 1000, kq = 8, kr = 20 \<rparr> \<rparr>"

section \<open>Example scenario\<close>

text \<open>
  The viewport of the specification's scenario, and the WebGazer state after a calibrated
  session has accepted its first sample, raw (500, 400) at time 1000 (shown to be so in
  \<open>afterFirstSample_reached\<close>).
\<close>

definition viewport0 :: env where
  "viewport0 = \<lparr> innerWidth = 1000, innerHeight = 800, sidebarHost = True \<rparr>"

definition afterFirstSample :: wg_state where
  "afterFirstSample =
     wg_initial\<lparr> isCalibrated := True,
       lastRawX := Some 500, lastRawY := Some 400, lastTimestamp := Some 1000,
       kalmanX := \<lparr> kx = 126000 / 257, kp = 5040 / 257, kq = 8, kr = 20 \<rparr>,
       kalmanY := \<lparr> kx = 100800 / 257, kp = 5040 / 257, kq = 8, kr = 20 \<rparr>,
       filteredX := Some (126000 / 257), filteredY := Some (100800 / 257) \<rparr>"

text \<open>
  Both scripts after the gaze has entered the media zone of that viewport: a first
  evaluation at time 0 records the candidate, a second one at time 100 commits it and
  starts the dwell.
\<close>

definition pyTrackingMedia :: py_state where
  "pyTrackingMedia =
     fst (runTicks PythonServer CONFIG_python viewport0 py_initial
            [(0, 950, 400), (100, 950, 400)])"


text \<open>
  An upstream library that is loaded and throws nowhere; a WebGazer session that starts at
  time 1000 with the completion flag already in storage; a first Python-server session with
  empty storage; and the click sequence that confirms each of the nine dots twice.
\<close>

definition upstream0 :: upstream where
  "upstream0 = \<lparr> webgazerDefined = True, beginThrows = False, pauseThrows = False, endThrows = False \<rparr>"

definition restartedSession :: "wg_state page" where
  "restartedSession =
     createCalibrationOverlay CONFIG_webgazer
       (newSession (initWebGazer upstream0 1000 wg_initial)
          (Some [STORAGE_KEY CONFIG_webgazer \<mapsto> ''true'']))"

definition firstSession :: "py_state page" where
  "firstSession = newSession py_initial (Some Map.empty)"

definition allDotsTwice :: "nat list" where
  "allDotsTwice = [0, 0, 1, 1, 2, 2, 3, 3, 4, 4, 5, 5, 6, 6, 7, 7, 8, 8]"

text \<open>
  A Python-server session that was calibrated, received the gaze target (950, 400), and
  then received \<^verbatim>\<open>calibration_reset\<close>.
\<close>

definition staleTarget :: "py_state page" where
  "staleTarget =
     handleServerMessage CONFIG_python CalibrationReset
       (handleServerMessage CONFIG_python (Gaze 950 400)
          (newSession (py_initial\<lparr> isCalibrated := True \<rparr>) (Some Map.empty)))"

text \<open>
  The same session, stored as calibrated, after a click on the recalibration button instead
  of the message.
\<close>

definition recalibratedTarget :: "py_state page" where
  "recalibratedTarget =
     py_recalibrate CONFIG_python
       (handleServerMessage CONFIG_python (Gaze 950 400)
          (newSession (py_initial\<lparr> isCalibrated := True \<rparr>)
             (Some [STORAGE_KEY CONFIG_python \<mapsto> ''true''])))"

section \<open>Theorems\<close>

subsection \<open>Steps of the zone machine\<close>

lemma stop_fields [simp]:
  "currentZone (stopScrollingOf sc st) = currentZone st"
  "pendingZone (stopScrollingOf sc st) = pendingZone st"
  "dwellStartTime (stopScrollingOf sc st) = dwellStartTime st"
  "zoneSwitchTime (stopScrollingOf sc st) = zoneSwitchTime st"
  by (cases sc; simp add: stopScrolling_def py_stopScrolling_def)+

lemma action_fields [simp]:
  "currentZone (handleZoneAction sc z st) = currentZone st"
  "pendingZone (handleZoneAction sc z st) = pendingZone st"
  "dwellStartTime (handleZoneAction sc z st) = dwellStartTime st"
  "zoneSwitchTime (handleZoneAction sc z st) = zoneSwitchTime st"
  by (cases z; simp add: handleZoneAction_def)+

lemma zoneStep_hold:
  assumes "sidebarHost w" and "holds cfg w z (now, x, y)" and "currentZone st = JZone z"
  shows "zoneStep sc cfg w now x y st =
    (if now - num (dwellStartTime st) \<ge> DWELL_TIME cfg
     then ((handleZoneAction sc z (st\<lparr> pendingZone := JNull \<rparr>))\<lparr> dwellStartTime := Some now \<rparr>, [z])
     else (st\<lparr> pendingZone := JNull \<rparr>, []))"
  using assms by (simp add: zoneStep_def holds_def Let_def)






lemma getZoneFromY_not_null: "getZoneFromY cfg w y \<noteq> JNull"
  by (simp add: getZoneFromY_def zoneAt_def split: option.splits)

lemma action_commutes:
  "handleZoneAction sc z (st\<lparr> pendingZone := g \<rparr>) = (handleZoneAction sc z st)\<lparr> pendingZone := g \<rparr>"
  "handleZoneAction sc z (st\<lparr> zoneSwitchTime := t \<rparr>) = (handleZoneAction sc z st)\<lparr> zoneSwitchTime := t \<rparr>"
  by (cases sc; cases z; simp add: handleZoneAction_def stopScrolling_def py_stopScrolling_def)+

lemma zoneStep_flicker:
  assumes "sidebarHost w" and "currentZone st = JZone z" and "pendingZone st = JNull"
    and "isInSidebar cfg w x" and "getZoneFromY cfg w y \<noteq> JZone z"
    and "holds cfg w z (now, x', y')"
  shows "zoneStep sc cfg w now x y st =
     (case zoneStep sc cfg w now x' y' st of
        (s, a) \<Rightarrow> (s\<lparr> pendingZone := getZoneFromY cfg w y, zoneSwitchTime := Some now \<rparr>, a))"
proof -
  have "zoneStep sc cfg w now x y st =
    (if now - num (dwellStartTime st) \<ge> DWELL_TIME cfg
     then ((handleZoneAction sc z (st\<lparr> pendingZone := getZoneFromY cfg w y, zoneSwitchTime := Some now \<rparr>))\<lparr> dwellStartTime := Some now \<rparr>, [z])
     else (st\<lparr> pendingZone := getZoneFromY cfg w y, zoneSwitchTime := Some now \<rparr>, []))"
    using assms(1-5) getZoneFromY_not_null[of cfg w y]
    by (simp add: zoneStep_def Let_def)
  then show ?thesis
    using zoneStep_hold[OF assms(1) assms(6) assms(2), of sc]
    by (simp add: action_commutes)
qed

lemma zoneStep_hold_after_flicker:
  assumes "sidebarHost w" and "currentZone st = JZone z" and "holds cfg w z (now, x, y)"
  shows "zoneStep sc cfg w now x y (st\<lparr> pendingZone := g, zoneSwitchTime := Some t \<rparr>) =
     (case zoneStep sc cfg w now x y st of (s, a) \<Rightarrow> (s\<lparr> zoneSwitchTime := Some t \<rparr>, a))"
  using zoneStep_hold[OF assms(1) assms(3), of st sc]
    zoneStep_hold[OF assms(1) assms(3), of "st\<lparr> pendingZone := g, zoneSwitchTime := Some t \<rparr>" sc]
    assms(2)
  by (simp add: action_commutes)

lemma zoneStep_hold_fields:
  assumes "sidebarHost w" and "currentZone st = JZone z" and "holds cfg w z (now, x, y)"
  shows "currentZone (fst (zoneStep sc cfg w now x y st)) = JZone z"
    and "pendingZone (fst (zoneStep sc cfg w now x y st)) = JNull"
    and "dwellStartTime (fst (zoneStep sc cfg w now x y st)) =
           (if now - num (dwellStartTime st) \<ge> DWELL_TIME cfg then Some now else dwellStartTime st)"
    and "snd (zoneStep sc cfg w now x y st) =
           (if now - num (dwellStartTime st) \<ge> DWELL_TIME cfg then [z] else [])"
  using zoneStep_hold[OF assms(1) assms(3) assms(2), of sc] assms(2)
  by simp_all

lemma flicker_main:
  assumes host: "sidebarHost w" and cz: "currentZone st = JZone z"
    and e0: "holds cfg w z (t0, x0, y0)"
    and in1: "isInSidebar cfg w x1" and z1: "getZoneFromY cfg w y1 \<noteq> JZone z"
    and e1: "holds cfg w z (t1, x1', y1')"
    and e2: "holds cfg w z (t2, x2, y2)"
  shows "runTicks sc cfg w st [(t0, x0, y0), (t1, x1, y1), (t2, x2, y2)] =
     (case runTicks sc cfg w st [(t0, x0, y0), (t1, x1', y1'), (t2, x2, y2)] of
        (s, a) \<Rightarrow> (s\<lparr> zoneSwitchTime := Some t1 \<rparr>, a))"
   and "currentZone (fst (runTicks sc cfg w st [(t0, x0, y0), (t1, x1, y1)])) = JZone z"
proof -
  obtain s0 a0 where s0: "zoneStep sc cfg w t0 x0 y0 st = (s0, a0)"
    by (cases "zoneStep sc cfg w t0 x0 y0 st")
  have c0: "currentZone s0 = JZone z" and p0: "pendingZone s0 = JNull"
    using zoneStep_hold_fields(1,2)[OF host cz e0, of sc] s0 by simp_all
  obtain s1 a1 where s1: "zoneStep sc cfg w t1 x1' y1' s0 = (s1, a1)"
    by (cases "zoneStep sc cfg w t1 x1' y1' s0")
  have c1: "currentZone s1 = JZone z"
    using zoneStep_hold_fields(1)[OF host c0 e1, of sc] s1 by simp
  have f1: "zoneStep sc cfg w t1 x1 y1 s0 =
      (s1\<lparr> pendingZone := getZoneFromY cfg w y1, zoneSwitchTime := Some t1 \<rparr>, a1)"
    using zoneStep_flicker[OF host c0 p0 in1 z1 e1, of sc] s1 by simp
  obtain s2 a2 where s2: "zoneStep sc cfg w t2 x2 y2 s1 = (s2, a2)"
    by (cases "zoneStep sc cfg w t2 x2 y2 s1")
  have f2: "zoneStep sc cfg w t2 x2 y2 (s1\<lparr> pendingZone := getZoneFromY cfg w y1, zoneSwitchTime := Some t1 \<rparr>) =
      (s2\<lparr> zoneSwitchTime := Some t1 \<rparr>, a2)"
    using zoneStep_hold_after_flicker[OF host c1 e2, of sc] s2 by simp
  show "runTicks sc cfg w st [(t0, x0, y0), (t1, x1, y1), (t2, x2, y2)] =
     (case runTicks sc cfg w st [(t0, x0, y0), (t1, x1', y1'), (t2, x2, y2)] of
        (s, a) \<Rightarrow> (s\<lparr> zoneSwitchTime := Some t1 \<rparr>, a))"
    using s0 s1 s2 f1 f2 by simp
  show "currentZone (fst (runTicks sc cfg w st [(t0, x0, y0), (t1, x1, y1)])) = JZone z"
    using s0 f1 c1 by simp
qed


subsection \<open>The example scenario\<close>

lemma viewport0_media: "holds CONFIG_python viewport0 MEDIA (t, 950, 400)"
  by (simp add: holds_def isInSidebar_def getZoneFromY_def zoneIndex_def zoneAt_def
      CONFIG_python_def viewport0_def)


lemma viewport0_ask: "isInSidebar CONFIG_python viewport0 950 \<and> getZoneFromY CONFIG_python viewport0 500 = JZone ASK_AI"
  by (simp add: isInSidebar_def getZoneFromY_def zoneIndex_def zoneAt_def
      CONFIG_python_def viewport0_def)

lemma viewport0_host: "sidebarHost viewport0"
  by (simp add: viewport0_def)

lemma pyTrackingMedia_eq:
  "pyTrackingMedia = py_initial\<lparr> currentZone := JZone MEDIA, zoneSwitchTime := Some 0, dwellStartTime := Some 100 \<rparr>"
  using viewport0_media[of 0] viewport0_media[of 100]
  by (simp add: pyTrackingMedia_def zoneStep_def holds_def Let_def py_initial_def py_stopScrolling_def)
     (simp add: CONFIG_python_def viewport0_def)

lemma pyTrackingMedia_fields:
  "currentZone pyTrackingMedia = JZone MEDIA" "dwellStartTime pyTrackingMedia = Some 100"
  by (simp_all add: pyTrackingMedia_eq)




lemma viewport0_ask': "getZoneFromY CONFIG_python viewport0 500 \<noteq> JZone MEDIA"
  using viewport0_ask by simp



subsection \<open>Steps of the filtering pipeline\<close>

lemma calculateVelocity_estimates:
  "filteredX (fst (calculateVelocity a b t st)) = filteredX st \<and>
   filteredY (fst (calculateVelocity a b t st)) = filteredY st \<and>
   kalmanX (fst (calculateVelocity a b t st)) = kalmanX st \<and>
   kalmanY (fst (calculateVelocity a b t st)) = kalmanY st"
  by (simp add: calculateVelocity_def Let_def)

lemma calculateVelocity_fields:
  "lastRawX st = None \<or> lastTimestamp st = None \<or> num (lastTimestamp st) < t \<Longrightarrow>
   lastRawX (fst (calculateVelocity a b t st)) = Some a \<and>
   lastRawY (fst (calculateVelocity a b t st)) = Some b \<and>
   lastTimestamp (fst (calculateVelocity a b t st)) = Some t"
  by (auto simp: calculateVelocity_def Let_def)

lemma calculateVelocity_stale:
  "lastRawX st \<noteq> None \<Longrightarrow> lastTimestamp st = Some t0 \<Longrightarrow> t \<le> t0 \<Longrightarrow>
   fst (calculateVelocity a b t st) = st"
  by (auto simp: calculateVelocity_def Let_def)

lemma lerp_values:
  "lerpCoordinate CONFIG_webgazer 500 (innerWidth viewport0) = 500"
  "lerpCoordinate CONFIG_webgazer 400 (innerHeight viewport0) = 400"
  "lerpCoordinate CONFIG_webgazer 80 (innerWidth viewport0) = 0"
  "lerpCoordinate CONFIG_webgazer 64 (innerHeight viewport0) = 0"
  by (simp_all add: lerpCoordinate_def CONFIG_webgazer_def viewport0_def Let_def)

lemma afterFirstSample_reached:
  "processGazeData CONFIG_webgazer viewport0 500 400 1000 None (wg_initial\<lparr> isCalibrated := True \<rparr>) =
     (afterFirstSample, Some (126000 / 257, Some (100800 / 257)))"
  by (simp add: processGazeData_def lerp_values calculateVelocity_def isOutlier_def
      kalmanFilter_def Let_def afterFirstSample_def)
     (simp add: wg_initial_def kalman_init_def CONFIG_webgazer_def)

lemma afterFirstSample_fields:
  "filteredX afterFirstSample = Some (126000 / 257)"
  "filteredY afterFirstSample = Some (100800 / 257)"
  "lastRawX afterFirstSample = Some 500"
  "lastRawY afterFirstSample = Some 400"
  "lastTimestamp afterFirstSample = Some 1000"
  by (simp_all add: afterFirstSample_def)

lemma afterFirstSample_far:
  "sqrt ((lerpCoordinate CONFIG_webgazer 80 (innerWidth viewport0) - 126000 / 257)\<^sup>2 +
         (lerpCoordinate CONFIG_webgazer 64 (innerHeight viewport0) - 100800 / 257)\<^sup>2)
     > OUTLIER_THRESHOLD CONFIG_webgazer"
proof -
  have "OUTLIER_THRESHOLD CONFIG_webgazer = 200" by (simp add: CONFIG_webgazer_def)
  moreover have "(200::real)\<^sup>2 < (0 - 126000 / 257)\<^sup>2 + (0 - 100800 / 257)\<^sup>2"
    by (simp add: power2_eq_square)
  ultimately show ?thesis
    by (simp only: lerp_values) (rule real_less_rsqrt, simp)
qed

lemma afterFirstSample_slow:
  "speed (snd (calculateVelocity (lerpCoordinate CONFIG_webgazer 80 (innerWidth viewport0))
      (lerpCoordinate CONFIG_webgazer 64 (innerHeight viewport0)) 2000 afterFirstSample))
     \<le> VELOCITY_THRESHOLD CONFIG_webgazer"
proof -
  have "speed (snd (calculateVelocity 0 0 2000 afterFirstSample)) = sqrt (500 * 500 + 400 * 400)"
    by (simp add: calculateVelocity_def afterFirstSample_fields Let_def)
  moreover have "sqrt (500 * 500 + 400 * 400) \<le> (1200::real)"
    by (rule real_le_lsqrt) simp_all
  moreover have "VELOCITY_THRESHOLD CONFIG_webgazer = 1200"
    by (simp add: CONFIG_webgazer_def)
  ultimately show ?thesis
    by (simp only: lerp_values)
qed

lemma afterFirstSample_saccade:
  "snd (processGazeData CONFIG_webgazer viewport0 80 64 1033 None afterFirstSample) = None"
proof -
  have "speed (snd (calculateVelocity 0 0 1033 afterFirstSample)) =
      sqrt ((500 / (33 / 1000)) * (500 / (33 / 1000)) + (400 / (33 / 1000)) * (400 / (33 / 1000)))"
    by (simp add: calculateVelocity_def afterFirstSample_fields Let_def)
  moreover have "(1200::real) <
      sqrt ((500 / (33 / 1000)) * (500 / (33 / 1000)) + (400 / (33 / 1000)) * (400 / (33 / 1000)))"
    by (rule real_less_rsqrt) (simp add: power2_eq_square)
  moreover have "VELOCITY_THRESHOLD CONFIG_webgazer = 1200"
    by (simp add: CONFIG_webgazer_def)
  ultimately have "speed (snd (calculateVelocity 0 0 1033 afterFirstSample)) >
      VELOCITY_THRESHOLD CONFIG_webgazer"
    by simp
  then show ?thesis
    by (cases "calculateVelocity 0 0 1033 afterFirstSample")
       (simp add: processGazeData_def lerp_values Let_def)
qed

subsection \<open>One step of the Kalman filter\<close>

lemma kalmanFilter_params [simp]:
  "kq (kalmanFilter m ks) = kq ks" "kr (kalmanFilter m ks) = kr ks"
  by (simp_all add: kalmanFilter_def Let_def)

lemma kalmanFilter_error:
  assumes "0 < kq ks" and "0 < kr ks" and "0 \<le> kp ks"
  shows "kx (kalmanFilter m ks) - m = (kr ks / (kp ks + kq ks + kr ks)) * (kx ks - m)"
    and "kp (kalmanFilter m ks) = kr ks * (kp ks + kq ks) / (kp ks + kq ks + kr ks)"
proof -
  define k where "k = (kp ks + kq ks) / (kp ks + kq ks + kr ks)"
  have ne: "kp ks + kq ks + kr ks \<noteq> 0" using assms by simp
  have k: "1 - k = kr ks / (kp ks + kq ks + kr ks)"
    unfolding k_def using ne by (simp add: field_simps)
  have "kx (kalmanFilter m ks) = kx ks + k * (m - kx ks)"
    by (simp add: kalmanFilter_def Let_def k_def)
  then have "kx (kalmanFilter m ks) - m = (1 - k) * (kx ks - m)"
    by (simp add: algebra_simps)
  then show "kx (kalmanFilter m ks) - m = (kr ks / (kp ks + kq ks + kr ks)) * (kx ks - m)"
    by (simp only: k)
  have "kp (kalmanFilter m ks) = (1 - k) * (kp ks + kq ks)"
    by (simp add: kalmanFilter_def Let_def k_def)
  then show "kp (kalmanFilter m ks) = kr ks * (kp ks + kq ks) / (kp ks + kq ks + kr ks)"
    by (simp only: k) simp
qed

lemma kalmanFilter_cov:
  assumes "0 < kq ks" and "0 < kr ks" and "0 \<le> kp ks"
  shows "0 \<le> kp (kalmanFilter m ks)"
  using assms by (simp add: kalmanFilter_error(2))

lemma kalman_factor:
  fixes p q r :: real
  assumes "0 < q" and "0 < r" and "0 \<le> p"
  shows "0 < r / (p + q + r)" and "r / (p + q + r) \<le> r / (q + r)" and "r / (q + r) < 1"
proof -
  show "0 < r / (p + q + r)" using assms by simp
  show "r / (p + q + r) \<le> r / (q + r)"
    using assms by (intro frac_le) simp_all
  show "r / (q + r) < 1" using assms by simp
qed

lemma kalmanFilter_contracts:
  assumes "0 < kq ks" and "0 < kr ks" and "0 \<le> kp ks"
  shows "\<bar>kx (kalmanFilter m ks) - m\<bar> \<le> (kr ks / (kq ks + kr ks)) * \<bar>kx ks - m\<bar>"
    and "\<bar>kx (kalmanFilter m ks) - m\<bar> \<le> \<bar>kx ks - m\<bar>"
    and "kx ks \<le> m \<Longrightarrow> kx ks \<le> kx (kalmanFilter m ks) \<and> kx (kalmanFilter m ks) \<le> m"
    and "m \<le> kx ks \<Longrightarrow> m \<le> kx (kalmanFilter m ks) \<and> kx (kalmanFilter m ks) \<le> kx ks"
proof -
  define c where "c = kr ks / (kp ks + kq ks + kr ks)"
  note f = kalman_factor[OF assms, folded c_def]
  have e: "kx (kalmanFilter m ks) - m = c * (kx ks - m)"
    unfolding c_def by (rule kalmanFilter_error(1)[OF assms])
  have c0: "0 < c" and c1: "c \<le> 1" using f by linarith+
  have a: "\<bar>kx (kalmanFilter m ks) - m\<bar> = c * \<bar>kx ks - m\<bar>"
    using c0 by (simp add: e abs_mult)
  show "\<bar>kx (kalmanFilter m ks) - m\<bar> \<le> (kr ks / (kq ks + kr ks)) * \<bar>kx ks - m\<bar>"
    unfolding a using f(2) by (intro mult_right_mono) simp_all
  show "\<bar>kx (kalmanFilter m ks) - m\<bar> \<le> \<bar>kx ks - m\<bar>"
    unfolding a using mult_right_mono[OF c1, of "\<bar>kx ks - m\<bar>"] by simp
  show "kx ks \<le> kx (kalmanFilter m ks) \<and> kx (kalmanFilter m ks) \<le> m" if "kx ks \<le> m"
  proof -
    have d: "kx ks - m \<le> 0" using that by simp
    have "c * (kx ks - m) \<le> 0" using c0 d by (simp add: mult_le_0_iff)
    moreover have "(1 - c) * (kx ks - m) \<le> 0"
      using c1 d by (simp add: mult_le_0_iff)
    then have "kx ks - m \<le> c * (kx ks - m)" by (simp add: algebra_simps)
    ultimately show ?thesis using e by linarith
  qed
  show "m \<le> kx (kalmanFilter m ks) \<and> kx (kalmanFilter m ks) \<le> kx ks" if "m \<le> kx ks"
  proof -
    have d: "0 \<le> kx ks - m" using that by simp
    have "0 \<le> c * (kx ks - m)" using c0 d by simp
    moreover have "0 \<le> (1 - c) * (kx ks - m)"
      using c1 d by simp
    then have "c * (kx ks - m) \<le> kx ks - m" by (simp add: algebra_simps)
    ultimately show ?thesis using e by linarith
  qed
qed

lemma kalmanFeed_Suc:
  "kalmanFeed m (Suc n) ks = kalmanFilter m (kalmanFeed m n ks)"
  by (induction n arbitrary: ks) simp_all

lemma kalmanFeed_good:
  assumes "0 < kq ks" and "0 < kr ks" and "0 \<le> kp ks"
  shows "kq (kalmanFeed m n ks) = kq ks \<and> kr (kalmanFeed m n ks) = kr ks \<and>
         0 \<le> kp (kalmanFeed m n ks)"
proof (induction n)
  case 0
  then show ?case using assms by simp
next
  case (Suc n)
  then show ?case
    using assms kalmanFilter_cov[of "kalmanFeed m n ks" m]
    by (simp only: kalmanFeed_Suc kalmanFilter_params)
qed

lemma kalmanFeed_geometric:
  assumes "0 < kq ks" and "0 < kr ks" and "0 \<le> kp ks"
  shows "\<bar>kx (kalmanFeed m n ks) - m\<bar> \<le> (kr ks / (kq ks + kr ks)) ^ n * \<bar>kx ks - m\<bar>"
proof (induction n)
  case 0
  then show ?case by simp
next
  case (Suc n)
  let ?s = "kalmanFeed m n ks" and ?rho = "kr ks / (kq ks + kr ks)"
  note g = kalmanFeed_good[OF assms, of m n]
  have q: "0 < kq ?s" and r: "0 < kr ?s" and p: "0 \<le> kp ?s" using g assms by simp_all
  have rho: "0 \<le> ?rho" using assms by simp
  have "\<bar>kx (kalmanFeed m (Suc n) ks) - m\<bar> \<le> (kr ?s / (kq ?s + kr ?s)) * \<bar>kx ?s - m\<bar>"
    unfolding kalmanFeed_Suc by (rule kalmanFilter_contracts(1)[OF q r p])
  also have "\<dots> = ?rho * \<bar>kx ?s - m\<bar>" using g by simp
  also have "\<dots> \<le> ?rho * (?rho ^ n * \<bar>kx ks - m\<bar>)"
    using Suc rho by (rule mult_left_mono)
  finally show ?case by (simp add: mult.assoc)
qed

lemma rho_power_small:
  assumes "0 < q" and "0 < r" and "kalmanSteps q r \<le> n"
  shows "(r / (q + r)) ^ n \<le> 1 / 100"
proof -
  let ?N = "kalmanSteps q r"
  have N: "99 * r / q \<le> real ?N"
    unfolding kalmanSteps_def by linarith
  have "99 * r / q \<le> real n" using N assms(3) by linarith
  then have "99 \<le> real n * (q / r)"
    using assms by (simp add: field_simps)
  then have "100 \<le> 1 + real n * (q / r)" by simp
  also have "\<dots> \<le> (1 + q / r) ^ n"
  proof (rule Bernoulli_inequality)
    have "0 \<le> q / r" using assms by simp
    then show "- 1 \<le> q / r" by linarith
  qed
  finally have big: "100 \<le> (1 + q / r) ^ n" .
  have inv: "r / (q + r) = 1 / (1 + q / r)"
    using assms by (simp add: field_simps)
  have "(r / (q + r)) ^ n = 1 / (1 + q / r) ^ n"
    by (simp add: inv power_one_over)
  also have "\<dots> \<le> 1 / 100"
    using big by (intro divide_left_mono) simp_all
  finally show ?thesis .
qed

lemma rho_default_small:
  assumes "14 \<le> n"
  shows "((20::real) / (8 + 20)) ^ n \<le> 1 / 100"
proof -
  have "((20::real) / (8 + 20)) ^ n \<le> (20 / (8 + 20)) ^ 14"
    using assms by (intro power_decreasing) simp_all
  also have "\<dots> \<le> 1 / 100" by (simp add: power_divide)
  finally show ?thesis .
qed

subsection \<open>Steps of the calibration\<close>

lemma sum_list_update:
  "i < length xs \<Longrightarrow>
   sum_list (map f (xs[i := y])) + f (xs ! i) = sum_list (map f xs) + (f y :: nat)"
  by (induction xs arbitrary: i) (auto split: nat.splits)

lemma count_update:
  "i < length xs \<Longrightarrow>
   length (filter P (xs[i := y])) + (if P (xs ! i) then 1 else 0) =
   length (filter P xs) + (if P y then 1 else 0)"
proof (induction xs arbitrary: i)
  case Nil
  then show ?case by simp
next
  case (Cons a xs)
  show ?case
  proof (cases i)
    case 0
    then show ?thesis by simp
  next
    case (Suc j)
    then have "j < length xs" using Cons.prems by simp
    from Cons.IH[OF this] show ?thesis using Suc by (cases "P a") simp_all
  qed
qed

lemma sum_list_bound:
  "\<forall>x\<in>set xs. f x \<le> (k::nat) \<Longrightarrow> sum_list (map f xs) \<le> length xs * k"
  by (induction xs) auto

lemma sum_list_strict:
  "\<forall>x\<in>set xs. f x \<le> (k::nat) \<Longrightarrow> \<exists>x\<in>set xs. f x < k \<Longrightarrow>
   sum_list (map f xs) < length xs * k"
proof (induction xs)
  case Nil
  then show ?case by simp
next
  case (Cons a xs)
  show ?case
  proof (cases "f a < k")
    case True
    moreover have "sum_list (map f xs) \<le> length xs * k"
      using Cons.prems(1) by (intro sum_list_bound) simp
    ultimately show ?thesis by simp
  next
    case False
    then have "f a = k" "\<exists>x\<in>set xs. f x < k" using Cons.prems by auto
    then show ?thesis using Cons by simp
  qed
qed

lemma sum_list_all:
  "\<forall>x\<in>set xs. f x = (k::nat) \<Longrightarrow> sum_list (map f xs) = length xs * k"
  by (induction xs) auto

lemma all_done:
  assumes "length (filter P xs) = length xs"
  shows "\<forall>x\<in>set xs. P x"
proof (rule ccontr)
  assume "\<not> (\<forall>x\<in>set xs. P x)"
  then obtain x where "x \<in> set xs" "\<not> P x" by blast
  then have "length (filter P xs) < length xs" by (rule length_filter_less)
  then show False using assms by simp
qed

lemma collecting_total:
  assumes "collecting cfg pg t"
  shows "t < 9 * CLICKS_PER_POINT cfg"
proof -
  obtain ds where ds: "overlay pg = Some ds"
    using assms by (auto simp: collecting_def split: option.splits)
  let ?K = "CLICKS_PER_POINT cfg"
  from assms ds have len: "length ds = 9"
    and dots: "\<forall>d\<in>set ds. if clickable d then dotClicks d < ?K else dotClicks d = ?K"
    and cnt: "length (filter (\<lambda>d. \<not> clickable d) ds) < 9"
    and t: "sum_list (map dotClicks ds) = t"
    by (auto simp: collecting_def)
  have le: "\<forall>d\<in>set ds. dotClicks d \<le> ?K"
    using dots by (auto split: if_splits)
  have "\<exists>d\<in>set ds. clickable d"
  proof (rule ccontr)
    assume "\<not> (\<exists>d\<in>set ds. clickable d)"
    then have "filter (\<lambda>d. \<not> clickable d) ds = ds" by (intro filter_True) simp
    then show False using cnt len by simp
  qed
  then have "\<exists>d\<in>set ds. dotClicks d < ?K" using dots by (auto split: if_splits)
  from sum_list_strict[OF le this] show ?thesis using len t by simp
qed

lemma dotClick_step:
  assumes inv: "collecting cfg pg t" and P: "CALIBRATION_POINTS cfg = 9"
    and can: "canClick i pg"
  shows "case dotClick cfg i pg of
           (pg1, True) \<Rightarrow> t + 1 = 9 * CLICKS_PER_POINT cfg
         | (pg1, False) \<Rightarrow> collecting cfg pg1 (t + 1)"
proof -
  let ?K = "CLICKS_PER_POINT cfg"
  obtain ds where ds: "overlay pg = Some ds"
    using inv by (auto simp: collecting_def split: option.splits)
  from inv ds have len: "length ds = 9"
    and dots: "\<forall>d\<in>set ds. if clickable d then dotClicks d < ?K else dotClicks d = ?K"
    and cnt: "calibrationClicks (pstate pg) = length (filter (\<lambda>d. \<not> clickable d) ds)"
    and lt9: "calibrationClicks (pstate pg) < 9"
    and nc: "\<not> isCalibrated (pstate pg)"
    and t: "sum_list (map dotClicks ds) = t"
    by (auto simp: collecting_def)
  from can ds have i: "i < length ds" and ci: "clickable (ds ! i)"
    by (auto simp: canClick_def)
  have mem: "ds ! i \<in> set ds" using i by simp
  have ltK: "dotClicks (ds ! i) < ?K" using dots mem ci by (auto split: if_splits)
  show ?thesis
  proof (cases "dotClicks (ds ! i) + 1 \<ge> ?K")
    case True
    then have n: "dotClicks (ds ! i) + 1 = ?K" using ltK by simp
    let ?d = "\<lparr> dotClicks = dotClicks (ds ! i) + 1, clickable = False \<rparr>"
    let ?ds = "ds[i := ?d]"
    have cnt': "length (filter (\<lambda>d. \<not> clickable d) ?ds) = calibrationClicks (pstate pg) + 1"
      using count_update[OF i, of "\<lambda>d. \<not> clickable d" ?d] ci cnt by simp
    have sum': "sum_list (map dotClicks ?ds) = t + 1"
      using sum_list_update[OF i, of dotClicks ?d] t by simp
    have dots': "\<forall>d\<in>set ?ds. if clickable d then dotClicks d < ?K else dotClicks d = ?K"
    proof
      fix d assume "d \<in> set ?ds"
      then have "d = ?d \<or> d \<in> set ds" using set_update_subset_insert[of ds i ?d] by auto
      then show "if clickable d then dotClicks d < ?K else dotClicks d = ?K"
        using dots n by auto
    qed
    show ?thesis
    proof (cases "calibrationClicks (pstate pg) + 1 \<ge> 9")
      case True
      then have "length (filter (\<lambda>d. \<not> clickable d) ?ds) = length ?ds"
        using cnt' lt9 len by simp
      then have "\<forall>d\<in>set ?ds. \<not> clickable d" by (rule all_done)
      then have "\<forall>d\<in>set ?ds. dotClicks d = ?K" using dots' by (auto split: if_splits)
      then have "sum_list (map dotClicks ?ds) = length ?ds * ?K" by (rule sum_list_all)
      then have "t + 1 = 9 * ?K" using sum' len by simp
      then show ?thesis
        using ds i ci \<open>dotClicks (ds ! i) + 1 \<ge> ?K\<close> True P
        by (simp add: dotClick_def Let_def)
    next
      case False
      then show ?thesis
        using ds i ci \<open>dotClicks (ds ! i) + 1 \<ge> ?K\<close> P len dots' cnt' sum' nc
        by (simp add: dotClick_def Let_def collecting_def)
    qed
  next
    case False
    let ?d = "(ds ! i)\<lparr> dotClicks := dotClicks (ds ! i) + 1 \<rparr>"
    let ?ds = "ds[i := ?d]"
    have cnt': "length (filter (\<lambda>d. \<not> clickable d) ?ds) = calibrationClicks (pstate pg)"
      using count_update[OF i, of "\<lambda>d. \<not> clickable d" ?d] ci cnt by simp
    have sum': "sum_list (map dotClicks ?ds) = t + 1"
      using sum_list_update[OF i, of dotClicks ?d] t by simp
    have dots': "\<forall>d\<in>set ?ds. if clickable d then dotClicks d < ?K else dotClicks d = ?K"
    proof
      fix d assume "d \<in> set ?ds"
      then have "d = ?d \<or> d \<in> set ds" using set_update_subset_insert[of ds i ?d] by auto
      then show "if clickable d then dotClicks d < ?K else dotClicks d = ?K"
        using dots False ci by auto
    qed
    show ?thesis
      using ds i ci False len dots' cnt' sum' nc lt9
      by (simp add: dotClick_def Let_def collecting_def)
  qed
qed

lemma finish_done:
  "isCalibrated (pstate (finishCalibration cfg pg))" "overlay (finishCalibration cfg pg) = None"
  by (simp_all add: finishCalibration_def setCalibrationDone_def)

lemma no_overlay_clicks:
  assumes "overlay pg = None"
  shows "validClicks cfg pg cs \<longleftrightarrow> cs = []"
  using assms by (cases cs) (simp_all add: canClick_def)

lemma clicks_complete:
  assumes "collecting cfg pg t" and "CALIBRATION_POINTS cfg = 9" and "validClicks cfg pg cs"
  shows "isCalibrated (pstate (clickDots cfg pg cs)) \<longleftrightarrow> t + length cs = 9 * CLICKS_PER_POINT cfg"
  using assms
proof (induction cs arbitrary: pg t)
  case Nil
  then show ?case
    using collecting_total[OF Nil.prems(1)] by (auto simp: collecting_def split: option.splits)
next
  case (Cons i cs)
  from Cons.prems(3) have can: "canClick i pg" by simp
  note step = dotClick_step[OF Cons.prems(1,2) can]
  obtain pg1 b where dc: "dotClick cfg i pg = (pg1, b)" by (cases "dotClick cfg i pg")
  show ?case
  proof (cases b)
    case True
    then have tot: "t + 1 = 9 * CLICKS_PER_POINT cfg" using step dc by simp
    have "validClicks cfg (finishCalibration cfg pg1) cs"
      using Cons.prems(3) dc True by simp
    then have "cs = []" by (simp add: no_overlay_clicks finish_done)
    then show ?thesis using dc True tot by (simp add: finish_done)
  next
    case False
    then have inv: "collecting cfg pg1 (t + 1)" using step dc by simp
    have v: "validClicks cfg pg1 cs" using Cons.prems(3) dc False by simp
    from Cons.IH[OF inv Cons.prems(2) v] show ?thesis using dc False by simp
  qed
qed

lemma fresh_collecting:
  assumes "\<not> isCalibrationDone cfg pg" and "\<not> isCalibrated (pstate pg)"
    and "calibrationClicks (pstate pg) = 0" and "0 < CLICKS_PER_POINT cfg"
  shows "collecting cfg (createCalibrationOverlay cfg pg) 0"
  using assms by (simp add: collecting_def createCalibrationOverlay_def freshDots_def)


lemma dotClick_storage:
  "localStorage (fst (dotClick cfg i pg)) = localStorage pg"
  by (simp add: dotClick_def Let_def split: option.splits)

lemma finish_persists:
  "localStorage pg \<noteq> None \<Longrightarrow> isCalibrationDone cfg (finishCalibration cfg pg)"
  by (auto simp: finishCalibration_def setCalibrationDone_def isCalibrationDone_def)

lemma clicks_persist:
  assumes "collecting cfg pg t" and "CALIBRATION_POINTS cfg = 9" and "validClicks cfg pg cs"
    and "localStorage pg \<noteq> None" and "isCalibrated (pstate (clickDots cfg pg cs))"
  shows "isCalibrationDone cfg (clickDots cfg pg cs)"
  using assms
proof (induction cs arbitrary: pg t)
  case Nil
  then show ?case by (auto simp: collecting_def split: option.splits)
next
  case (Cons i cs)
  from Cons.prems(3) have can: "canClick i pg" by simp
  note step = dotClick_step[OF Cons.prems(1,2) can]
  obtain pg1 b where dc: "dotClick cfg i pg = (pg1, b)" by (cases "dotClick cfg i pg")
  have st: "localStorage pg1 \<noteq> None"
    using dotClick_storage[of cfg i pg] dc Cons.prems(4) by simp
  show ?case
  proof (cases b)
    case True
    have "validClicks cfg (finishCalibration cfg pg1) cs"
      using Cons.prems(3) dc True by simp
    then have "cs = []" by (simp add: no_overlay_clicks finish_done)
    then show ?thesis using dc True st by (simp add: finish_persists)
  next
    case False
    then have inv: "collecting cfg pg1 (t + 1)" using step dc by simp
    have v: "validClicks cfg pg1 cs" using Cons.prems(3) dc False by simp
    have c: "isCalibrated (pstate (clickDots cfg pg1 cs))" using Cons.prems(5) dc False by simp
    from Cons.IH[OF inv Cons.prems(2) v st c] show ?thesis using dc False by simp
  qed
qed

lemma restart_short_circuits:
  "isCalibrationDone cfg pg \<Longrightarrow>
   createCalibrationOverlay cfg (newSession s0 (localStorage pg)) =
     newSession (s0\<lparr> isCalibrated := True \<rparr>) (localStorage pg)"
  by (simp add: createCalibrationOverlay_def newSession_def isCalibrationDone_def)

lemma recalibrate_not_started:
  "\<not> isCalibrationDone cfg (recalibrate cfg pg) \<and>
   \<not> isCalibrated (pstate (recalibrate cfg pg)) \<and>
   calibrationClicks (pstate (recalibrate cfg pg)) = 0 \<and>
   overlay (recalibrate cfg pg) = Some freshDots"
  by (cases "localStorage pg")
     (simp_all add: recalibrate_def resetCalibration_def createCalibrationOverlay_def
        isCalibrationDone_def)

lemma py_recalibrate_not_started:
  "\<not> isCalibrationDone cfg (py_recalibrate cfg pg) \<and>
   \<not> isCalibrated (pstate (py_recalibrate cfg pg)) \<and>
   calibrationClicks (pstate (py_recalibrate cfg pg)) = 0 \<and>
   overlay (py_recalibrate cfg pg) = Some freshDots"
  by (cases "localStorage pg")
     (simp_all add: py_recalibrate_def py_resetCalibration_def createCalibrationOverlay_def
        isCalibrationDone_def)

lemma allDotsTwice_valid:
  "validClicks CONFIG_python (createCalibrationOverlay CONFIG_python firstSession) allDotsTwice"
  by code_simp

lemma restartedSession_fields:
  "isCalibrated (pstate restartedSession)" "isWebGazerReady (pstate restartedSession)"
  "lastGazeTime (pstate restartedSession) = 1000"
  by (simp_all add: restartedSession_def createCalibrationOverlay_def isCalibrationDone_def
      newSession_def initWebGazer_def upstream0_def wg_initial_def)

subsection \<open>What a sample leaves of the watchdog fields\<close>

lemma zoneStep_wg_fields:
  "lastGazeTime (fst (zoneStep sc cfg w now x y (st::wg_state))) = lastGazeTime st \<and>
   isCalibrated (fst (zoneStep sc cfg w now x y st)) = isCalibrated st \<and>
   isWebGazerReady (fst (zoneStep sc cfg w now x y st)) = isWebGazerReady st"
  by (cases sc)
     (auto simp: zoneStep_def Let_def handleZoneAction_def stopScrolling_def py_stopScrolling_def
           split: zoneval.splits zone.splits)

lemma processGazeData_wg_fields:
  "lastGazeTime (fst (processGazeData cfg w rx ry t conf st)) = lastGazeTime st \<and>
   isCalibrated (fst (processGazeData cfg w rx ry t conf st)) = isCalibrated st \<and>
   isWebGazerReady (fst (processGazeData cfg w rx ry t conf st)) = isWebGazerReady st"
  by (auto simp: processGazeData_def calculateVelocity_def Let_def split: option.splits prod.splits)

lemma gazeListener_stamps:
  "lastGazeTime (fst (gazeListener cfg w dateNow perfNow (Some d) st)) = dateNow \<and>
   isCalibrated (fst (gazeListener cfg w dateNow perfNow (Some d) st)) = isCalibrated st \<and>
   isWebGazerReady (fst (gazeListener cfg w dateNow perfNow (Some d) st)) = isWebGazerReady st"
proof -
  let ?s1 = "st\<lparr> lastGazeTime := dateNow \<rparr>"
  obtain s2 r where p: "processGazeData cfg w (gx d) (gy d) perfNow (confidence d) ?s1 = (s2, r)"
    by (cases "processGazeData cfg w (gx d) (gy d) perfNow (confidence d) ?s1")
  have s2: "lastGazeTime s2 = dateNow" "isCalibrated s2 = isCalibrated st"
    "isWebGazerReady s2 = isWebGazerReady st"
    using processGazeData_wg_fields[of cfg w "gx d" "gy d" perfNow "confidence d" ?s1] p
    by simp_all
  show ?thesis
    using p s2 zoneStep_wg_fields[of WebGazer cfg w perfNow _ _ s2]
    by (auto simp: gazeListener_def Let_def updateGazePosition_def split: option.splits)
qed

lemma zoneIndex_pos_height:
  assumes "0 < innerHeight w" and "ZONE_COUNT cfg = 5"
  shows "zoneIndex cfg w y = Some (min \<lfloor>y / (innerHeight w / 5)\<rfloor> 4)"
  using assms by (simp add: zoneIndex_def Let_def)

subsection \<open>Calibration gate on the gaze path\<close>

text \<open>
  The two sample handlers are gated. While \<^verbatim>\<open>state.isCalibrated\<close> is false, the
  listener of the WebGazer script returns before the filtering pipeline: it dispatches
  nothing and changes at most \<^verbatim>\<open>lastGazeTime\<close>. That listener is the only caller of
  the zone evaluation in the WebGazer script, so there the whole path is gated. In the
  Python-server script a \<^verbatim>\<open>gaze\<close> message is dropped and the page is left as it was.
\<close>

lemma uncalibrated_sample_dispatches_nothing:
  assumes "\<not> isCalibrated st" and "\<not> isCalibrated (pstate pg)"
  shows "snd (gazeListener cfg w dateNow perfNow data st) = [] \<and>
         fst (gazeListener cfg w dateNow perfNow data st) =
           (case data of None \<Rightarrow> st | Some d \<Rightarrow> st\<lparr> lastGazeTime := dateNow \<rparr>) \<and>
         handleServerMessage pcfg (Gaze gazeX' gazeY') pg = pg"
  using assms
  by (auto simp: gazeListener_def handleServerMessage_def Let_def split: option.splits)

lemma uncalibrated_sample_example:
  "\<not> isCalibrated wg_initial \<and> \<not> isCalibrated (pstate (newSession py_initial None)) \<and>
   snd (gazeListener CONFIG_webgazer
          \<lparr> innerWidth = 1000, innerHeight = 800, sidebarHost = True \<rparr> 5000 5000
          (Some \<lparr> gx = 950, gy = 400, confidence = None \<rparr>) wg_initial) = [] \<and>
   handleServerMessage CONFIG_python (Gaze 950 400) (newSession py_initial None) =
     newSession py_initial None"
  using uncalibrated_sample_dispatches_nothing
    [of wg_initial "newSession py_initial None" CONFIG_webgazer
        "\<lparr> innerWidth = 1000, innerHeight = 800, sidebarHost = True \<rparr>" 5000 5000
        "Some \<lparr> gx = 950, gy = 400, confidence = None \<rparr>" CONFIG_python 950 400]
  by (simp add: wg_initial_def py_initial_def newSession_def)

text \<open>
  With the session calibrated and active, the listener hands every position that the
  filtering pipeline returns to the zone evaluation.
\<close>

lemma calibrated_sample_reaches_zones:
  assumes "isActive st" and "isCalibrated st"
  shows "gazeListener cfg w dateNow perfNow (Some d) st =
     (case processGazeData cfg w (gx d) (gy d) perfNow (confidence d)
             (st\<lparr> lastGazeTime := dateNow \<rparr>) of
        (st2, None) \<Rightarrow> (st2, [])
      | (st2, Some (x, y)) \<Rightarrow> updateGazePosition cfg w perfNow x (num y) st2)"
  using assms by (simp add: gazeListener_def Let_def)

text \<open>
  In the Python-server script the zones are evaluated by the animation frame, not by the
  message handler. Both ways of opening the gate again leave the gaze target in the state.
\<close>

lemma staleTarget_eq:
  "pstate staleTarget = py_initial\<lparr> gazeX := Some 950, gazeY := Some 400 \<rparr>"
  by (simp add: staleTarget_def handleServerMessage_def newSession_def py_initial_def)

lemma recalibratedTarget_eq:
  "pstate recalibratedTarget = py_initial\<lparr> gazeX := Some 950, gazeY := Some 400 \<rparr>"
  "overlay recalibratedTarget = Some freshDots"
  "\<not> isCalibrationDone CONFIG_python recalibratedTarget"
  by (simp_all add: recalibratedTarget_def py_recalibrate_def py_resetCalibration_def
        createCalibrationOverlay_def isCalibrationDone_def handleServerMessage_def
        newSession_def py_initial_def)

lemma stale_frames:
  "animate CONFIG_python viewport0 0 (py_initial\<lparr> gazeX := Some 950, gazeY := Some 400 \<rparr>) =
     (py_initial\<lparr> gazeX := Some 950, gazeY := Some 400, displayX := Some 950,
        displayY := Some 400, pendingZone := JZone MEDIA, zoneSwitchTime := Some 0 \<rparr>, [])"
  "animate CONFIG_python viewport0 100
     (py_initial\<lparr> gazeX := Some 950, gazeY := Some 400, displayX := Some 950,
        displayY := Some 400, pendingZone := JZone MEDIA, zoneSwitchTime := Some 0 \<rparr>) =
     (py_initial\<lparr> gazeX := Some 950, gazeY := Some 400, displayX := Some 950,
        displayY := Some 400, zoneSwitchTime := Some 0, currentZone := JZone MEDIA,
        dwellStartTime := Some 100 \<rparr>, [])"
  "animate CONFIG_python viewport0 700
     (py_initial\<lparr> gazeX := Some 950, gazeY := Some 400, displayX := Some 950,
        displayY := Some 400, zoneSwitchTime := Some 0, currentZone := JZone MEDIA,
        dwellStartTime := Some 100 \<rparr>) =
     (py_initial\<lparr> gazeX := Some 950, gazeY := Some 400, displayX := Some 950,
        displayY := Some 400, zoneSwitchTime := Some 0, currentZone := JZone MEDIA,
        dwellStartTime := Some 700 \<rparr>, [MEDIA])"
  by (simp_all add: animate_def updateZoneFromGaze_def zoneStep_def Let_def isInSidebar_def
        getZoneFromY_def zoneIndex_def zoneAt_def py_stopScrolling_def handleZoneAction_def
        py_initial_def CONFIG_python_def viewport0_def)

text \<open>
  Claim C1 requires that no zone action is invoked by the gaze-processing path while
  calibration is not done. The Python-server script breaks it: its animation frame reads
  neither \<^verbatim>\<open>isCalibrated\<close> nor \<^verbatim>\<open>isActive\<close>. A calibrated session receives the gaze
  target (950, 400) on the 1000 by 800 viewport; then \<^verbatim>\<open>calibration_reset\<close> arrives, or
  the recalibration button is clicked. The session is no longer calibrated, yet frames at
  times 0, 100 and 700 commit the media zone and dispatch the media action, and the session
  is still not calibrated afterwards.
\<close>

theorem animation_frame_not_gated:
  "\<not> isCalibrated (pstate staleTarget) \<and>
   snd (animate CONFIG_python viewport0 700
         (fst (animate CONFIG_python viewport0 100
            (fst (animate CONFIG_python viewport0 0 (pstate staleTarget)))))) = [MEDIA] \<and>
   \<not> isCalibrated (fst (animate CONFIG_python viewport0 700
         (fst (animate CONFIG_python viewport0 100
            (fst (animate CONFIG_python viewport0 0 (pstate staleTarget))))))) \<and>
   \<not> isCalibrated (pstate recalibratedTarget) \<and>
   overlay recalibratedTarget = Some freshDots \<and>
   snd (animate CONFIG_python viewport0 700
         (fst (animate CONFIG_python viewport0 100
            (fst (animate CONFIG_python viewport0 0 (pstate recalibratedTarget)))))) = [MEDIA]"
  by (simp add: staleTarget_eq recalibratedTarget_eq stale_frames) (simp add: py_initial_def)

subsection \<open>Strip membership and zone index\<close>

text \<open>
  Claim C3, as the code has it. A position is in the activation strip iff
  \<open>x \<ge> innerWidth - SIDEBAR_WIDTH\<close> (140 in both scripts). For a viewport of positive
  height and \<open>y \<ge> 0\<close> the resolved zone is the one at index
  \<open>\<lfloor>y / (h / 5)\<rfloor>\<close> clamped to \<open>[0, 4]\<close>. The code applies the upper clamp only, so
  the lower bound comes from \<open>y \<ge> 0\<close>.
\<close>

theorem zone_resolution:
  assumes "0 < innerHeight w" and "0 \<le> y" and "ZONE_COUNT cfg = 5"
    and "ZONES cfg = [SCROLL_UP, SCROLL_DOWN, MEDIA, ASK_AI, KILL_SWITCH]"
  shows "isInSidebar cfg w x = (x \<ge> innerWidth w - SIDEBAR_WIDTH cfg) \<and>
         SIDEBAR_WIDTH CONFIG_python = 140 \<and> SIDEBAR_WIDTH CONFIG_webgazer = 140 \<and>
         getZoneFromY cfg w y = JZone (ZONES cfg ! nat (specZoneIndex (innerHeight w) y)) \<and>
         0 \<le> specZoneIndex (innerHeight w) y \<and> specZoneIndex (innerHeight w) y \<le> 4"
proof -
  have "0 \<le> y / (innerHeight w / 5)"
    using assms by simp
  then have f: "0 \<le> \<lfloor>y / (innerHeight w / 5)\<rfloor>"
    by simp
  then have c: "specZoneIndex (innerHeight w) y = min \<lfloor>y / (innerHeight w / 5)\<rfloor> 4"
    by (simp add: specZoneIndex_def)
  have "getZoneFromY cfg w y = JZone (ZONES cfg ! nat (specZoneIndex (innerHeight w) y))"
    using assms f c by (simp add: getZoneFromY_def zoneIndex_pos_height zoneAt_def)
  moreover have "0 \<le> specZoneIndex (innerHeight w) y \<and> specZoneIndex (innerHeight w) y \<le> 4"
    by (simp add: specZoneIndex_def)
  ultimately show ?thesis
    by (simp add: isInSidebar_def CONFIG_python_def CONFIG_webgazer_def)
qed

text \<open>The scenario of the specification: viewport 1000 by 800, position (950, 500).\<close>

theorem zone_resolution_witness:
  "isInSidebar CONFIG_python \<lparr> innerWidth = 1000, innerHeight = 800, sidebarHost = True \<rparr> 950 \<and>
   specZoneIndex 800 500 = 3 \<and>
   getZoneFromY CONFIG_python \<lparr> innerWidth = 1000, innerHeight = 800, sidebarHost = True \<rparr> 500
     = JZone ASK_AI"
  using zone_resolution
    [of "\<lparr> innerWidth = 1000, innerHeight = 800, sidebarHost = True \<rparr>" 500 CONFIG_python 950]
  by (simp add: CONFIG_python_def specZoneIndex_def)

text \<open>
  Claim C3 as stated fails below the viewport: for \<open>y = -1\<close> the clamped index is 0, but
  the code resolves no zone.
\<close>

theorem zone_resolution_counterexample:
  "specZoneIndex 800 (- 1) = 0 \<and>
   getZoneFromY CONFIG_python \<lparr> innerWidth = 1000, innerHeight = 800, sidebarHost = True \<rparr> (- 1)
     = JUndefined \<and>
   getZoneFromY CONFIG_python \<lparr> innerWidth = 1000, innerHeight = 800, sidebarHost = True \<rparr> (- 1)
     \<noteq> JZone (ZONES CONFIG_python ! nat (specZoneIndex 800 (- 1)))"
  by (simp add: getZoneFromY_def zoneIndex_def zoneAt_def CONFIG_python_def specZoneIndex_def)

text \<open>Below the viewport no zone is resolved, whatever the height.\<close>

lemma getZoneFromY_below_viewport:
  assumes "0 < innerHeight w" and "y < 0" and "ZONE_COUNT cfg = 5"
  shows "getZoneFromY cfg w y = JUndefined"
proof -
  have "y / (innerHeight w / 5) < 0"
    using assms(1,2) by (simp add: divide_neg_pos)
  then have "\<lfloor>y / (innerHeight w / 5)\<rfloor> < 0"
    by (simp add: floor_less_iff)
  then show ?thesis
    using assms by (simp add: getZoneFromY_def zoneIndex_pos_height zoneAt_def)
qed

subsection \<open>Viewport resize\<close>

text \<open>
  Claim C8, as the code has it. The resize listener of the WebGazer script resets the
  filtering state (filtered coordinates, moving-average buffer, last raw coordinate, last
  timestamp, velocities, both Kalman axes) to the initial values and leaves the zone
  resolution state (\<^verbatim>\<open>currentZone\<close>, \<^verbatim>\<open>pendingZone\<close>, \<^verbatim>\<open>zoneSwitchTime\<close>,
  \<^verbatim>\<open>dwellStartTime\<close>) as it was.
\<close>

theorem resize_resets_filter_state_only:
  "filteredX (onResize st) = filteredX wg_initial \<and>
   filteredY (onResize st) = filteredY wg_initial \<and>
   gazeBuffer (onResize st) = gazeBuffer wg_initial \<and>
   lastRawX (onResize st) = lastRawX wg_initial \<and>
   lastRawY (onResize st) = lastRawY wg_initial \<and>
   lastTimestamp (onResize st) = lastTimestamp wg_initial \<and>
   velocityX (onResize st) = velocityX wg_initial \<and>
   velocityY (onResize st) = velocityY wg_initial \<and>
   kalmanX (onResize st) = kalmanX wg_initial \<and>
   kalmanY (onResize st) = kalmanY wg_initial \<and>
   currentZone (onResize st) = currentZone st \<and>
   pendingZone (onResize st) = pendingZone st \<and>
   zoneSwitchTime (onResize st) = zoneSwitchTime st \<and>
   dwellStartTime (onResize st) = dwellStartTime st"
  by (simp add: onResize_def wg_initial_def kalman_init_def)

text \<open>
  Claim C8 as stated fails: after two evaluations inside the media zone, 100 ms apart,
  \<^verbatim>\<open>currentZone\<close> is the media zone, and a resize does not put it back to \<^verbatim>\<open>null\<close>.
\<close>

theorem resize_keeps_zone_counterexample:
  "currentZone (onResize (fst (runTicks WebGazer CONFIG_webgazer
       \<lparr> innerWidth = 1000, innerHeight = 800, sidebarHost = True \<rparr> wg_initial
       [(0, 950, 400), (100, 950, 400)]))) = JZone MEDIA \<and>
   currentZone wg_initial = JNull"
  by (simp add: zoneStep_def isInSidebar_def getZoneFromY_def zoneIndex_def zoneAt_def
      Let_def wg_initial_def stopScrolling_def CONFIG_webgazer_def onResize_def)

subsection \<open>Dwell activation\<close>




subsection \<open>Zone hysteresis\<close>

text \<open>
  Claim C4. Let the current zone be \<open>z\<close>, and let three consecutive evaluations inside
  the strip resolve to \<open>z\<close>, to something else, and to \<open>z\<close> again: a single-tick
  flicker. Then the current zone is \<open>z\<close> after the flicker tick and after the next one,
  and no candidate is left pending. The run ends in the same state and dispatches the same
  actions as the run in which the middle evaluation also resolves to \<open>z\<close>, except
  that \<^verbatim>\<open>zoneSwitchTime\<close> records the flicker tick; so the dwell start moves only when
  a dwell activation fires, as it would without the flicker. In particular, while the dwell
  time has not elapsed the dwell start keeps its value and nothing is dispatched. This
  holds for every \<^verbatim>\<open>ZONE_SWITCH_DELAY\<close> and every interval between evaluations.
\<close>

theorem single_tick_flicker:
  assumes "sidebarHost w" and "currentZone st = JZone z"
    and "holds cfg w z (t0, x0, y0)"
    and "isInSidebar cfg w x1" and "getZoneFromY cfg w y1 \<noteq> JZone z"
    and "holds cfg w z (t2, x2, y2)"
  shows "currentZone (fst (runTicks sc cfg w st [(t0, x0, y0), (t1, x1, y1)])) = JZone z \<and>
         currentZone (fst (runTicks sc cfg w st [(t0, x0, y0), (t1, x1, y1), (t2, x2, y2)])) = JZone z \<and>
         pendingZone (fst (runTicks sc cfg w st [(t0, x0, y0), (t1, x1, y1), (t2, x2, y2)])) = JNull \<and>
         runTicks sc cfg w st [(t0, x0, y0), (t1, x1, y1), (t2, x2, y2)] =
           (case runTicks sc cfg w st [(t0, x0, y0), (t1, x0, y0), (t2, x2, y2)] of
              (s, a) \<Rightarrow> (s\<lparr> zoneSwitchTime := Some t1 \<rparr>, a)) \<and>
         (dwellStartTime st = Some d \<and> t0 - d < DWELL_TIME cfg \<and> t1 - d < DWELL_TIME cfg \<and>
          t2 - d < DWELL_TIME cfg \<longrightarrow>
            dwellStartTime (fst (runTicks sc cfg w st [(t0, x0, y0), (t1, x1, y1), (t2, x2, y2)]))
              = Some d \<and>
            snd (runTicks sc cfg w st [(t0, x0, y0), (t1, x1, y1), (t2, x2, y2)]) = [])"
proof -
  have e1: "holds cfg w z (t1, x0, y0)"
    using assms(3) by (simp add: holds_def)
  let ?steady = "[(t0, x0, y0), (t1, x0, y0), (t2, x2, y2)]"
  let ?flick = "[(t0, x0, y0), (t1, x1, y1), (t2, x2, y2)]"
  note main = flicker_main[OF assms(1-5) e1 assms(6), where sc = sc]
  obtain s0 a0 where s0: "zoneStep sc cfg w t0 x0 y0 st = (s0, a0)"
    by (cases "zoneStep sc cfg w t0 x0 y0 st")
  have c0: "currentZone s0 = JZone z"
    using zoneStep_hold_fields(1)[OF assms(1,2,3), of sc] s0 by simp
  obtain s1 a1 where s1: "zoneStep sc cfg w t1 x0 y0 s0 = (s1, a1)"
    by (cases "zoneStep sc cfg w t1 x0 y0 s0")
  have c1: "currentZone s1 = JZone z"
    using zoneStep_hold_fields(1)[OF assms(1) c0 e1, of sc] s1 by simp
  obtain s2 a2 where s2: "zoneStep sc cfg w t2 x2 y2 s1 = (s2, a2)"
    by (cases "zoneStep sc cfg w t2 x2 y2 s1")
  have c2: "currentZone s2 = JZone z" and p2: "pendingZone s2 = JNull"
    using zoneStep_hold_fields(1,2)[OF assms(1) c1 assms(6), of sc] s2 by simp_all
  have steady: "runTicks sc cfg w st ?steady = (s2, a0 @ a1 @ a2)"
    using s0 s1 s2 by simp
  have flick: "runTicks sc cfg w st ?flick = (s2\<lparr> zoneSwitchTime := Some t1 \<rparr>, a0 @ a1 @ a2)"
    using main(1) steady by simp
  have quiet: "dwellStartTime s2 = Some d \<and> a0 @ a1 @ a2 = []"
    if "dwellStartTime st = Some d" and "t0 - d < DWELL_TIME cfg" and "t1 - d < DWELL_TIME cfg"
      and "t2 - d < DWELL_TIME cfg"
  proof -
    have d0: "dwellStartTime s0 = Some d" and "a0 = []"
      using zoneStep_hold_fields(3,4)[OF assms(1,2,3), of sc] s0 that by simp_all
    moreover have d1: "dwellStartTime s1 = Some d" and "a1 = []"
      using zoneStep_hold_fields(3,4)[OF assms(1) c0 e1, of sc] s1 d0 that by simp_all
    moreover have "dwellStartTime s2 = Some d" and "a2 = []"
      using zoneStep_hold_fields(3,4)[OF assms(1) c1 assms(6), of sc] s2 d1 that by simp_all
    ultimately show ?thesis by simp
  qed
  show ?thesis
    using main(2) flick steady c2 p2 quiet by simp
qed

theorem single_tick_flicker_witness:
  "getZoneFromY CONFIG_python viewport0 500 = JZone ASK_AI \<and>
   currentZone (fst (runTicks PythonServer CONFIG_python viewport0 pyTrackingMedia
      [(150, 950, 400), (166, 950, 500), (183, 950, 400)])) = JZone MEDIA \<and>
   dwellStartTime (fst (runTicks PythonServer CONFIG_python viewport0 pyTrackingMedia
      [(150, 950, 400), (166, 950, 500), (183, 950, 400)])) = Some 100 \<and>
   snd (runTicks PythonServer CONFIG_python viewport0 pyTrackingMedia
      [(150, 950, 400), (166, 950, 500), (183, 950, 400)]) = []"
proof -
  have q: "dwellStartTime pyTrackingMedia = Some 100 \<and> 150 - 100 < DWELL_TIME CONFIG_python \<and>
      166 - 100 < DWELL_TIME CONFIG_python \<and> 183 - 100 < DWELL_TIME CONFIG_python"
    by (simp add: pyTrackingMedia_fields CONFIG_python_def)
  have a: "isInSidebar CONFIG_python viewport0 950" using viewport0_ask by simp
  show ?thesis
    using single_tick_flicker[OF viewport0_host pyTrackingMedia_fields(1) viewport0_media[of 150]
        a viewport0_ask' viewport0_media[of 183], of PythonServer 166 100] q viewport0_ask
    by blast
qed

subsection \<open>Outlier gate\<close>

text \<open>
  Claim C6, as the code has it. Let a prior filtered position exist and let the normalized
  sample lie farther than \<^verbatim>\<open>OUTLIER_THRESHOLD\<close> from it. Then the sample is rejected:
  the filtered coordinates and both Kalman states are left unchanged, and the result is
  either no position or exactly the prior filtered position. It is the prior filtered
  position whenever the sample passes the two earlier rules, that is, it carries no
  confidence below \<^verbatim>\<open>MIN_CONFIDENCE\<close> and its speed does not exceed
  \<^verbatim>\<open>VELOCITY_THRESHOLD\<close>; a sample vetoed by one of those gets no replacement.
\<close>

theorem outlier_rejected_hold_steady:
  assumes "filteredX st = Some fx" and "filteredY st = Some fy"
    and "sqrt ((lerpCoordinate cfg rawX (innerWidth w) - fx)\<^sup>2 +
               (lerpCoordinate cfg rawY (innerHeight w) - fy)\<^sup>2) > OUTLIER_THRESHOLD cfg"
  shows "filteredX (fst (processGazeData cfg w rawX rawY t conf st)) = filteredX st \<and>
         filteredY (fst (processGazeData cfg w rawX rawY t conf st)) = filteredY st \<and>
         kalmanX (fst (processGazeData cfg w rawX rawY t conf st)) = kalmanX st \<and>
         kalmanY (fst (processGazeData cfg w rawX rawY t conf st)) = kalmanY st \<and>
         (snd (processGazeData cfg w rawX rawY t conf st) = None \<or>
          snd (processGazeData cfg w rawX rawY t conf st) = Some (fx, Some fy)) \<and>
         ((conf = None \<or> (\<exists>c. conf = Some c \<and> MIN_CONFIDENCE cfg \<le> c)) \<and>
          speed (snd (calculateVelocity (lerpCoordinate cfg rawX (innerWidth w))
                   (lerpCoordinate cfg rawY (innerHeight w)) t st)) \<le> VELOCITY_THRESHOLD cfg \<longrightarrow>
            snd (processGazeData cfg w rawX rawY t conf st) = Some (fx, Some fy))"
proof -
  let ?lx = "lerpCoordinate cfg rawX (innerWidth w)"
  let ?ly = "lerpCoordinate cfg rawY (innerHeight w)"
  obtain s1 v where cv: "calculateVelocity ?lx ?ly t st = (s1, v)"
    by (cases "calculateVelocity ?lx ?ly t st")
  have e: "filteredX s1 = Some fx" "filteredY s1 = Some fy"
    "kalmanX s1 = kalmanX st" "kalmanY s1 = kalmanY st"
    using calculateVelocity_estimates[of ?lx ?ly t st] cv assms(1,2) by simp_all
  have o: "isOutlier cfg ?lx ?ly s1"
    using e assms(3) by (simp add: isOutlier_def)
  have "filteredX (fst (processGazeData cfg w rawX rawY t conf st)) = filteredX st"
    using cv e o assms(1) by (simp add: processGazeData_def Let_def)
  moreover have "filteredY (fst (processGazeData cfg w rawX rawY t conf st)) = filteredY st"
    using cv e o assms(2) by (simp add: processGazeData_def Let_def)
  moreover have "kalmanX (fst (processGazeData cfg w rawX rawY t conf st)) = kalmanX st"
    using cv e o by (simp add: processGazeData_def Let_def)
  moreover have "kalmanY (fst (processGazeData cfg w rawX rawY t conf st)) = kalmanY st"
    using cv e o by (simp add: processGazeData_def Let_def)
  moreover have "snd (processGazeData cfg w rawX rawY t conf st) = None \<or>
      snd (processGazeData cfg w rawX rawY t conf st) = Some (fx, Some fy)"
    using cv e o by (simp add: processGazeData_def Let_def)
  moreover have "snd (processGazeData cfg w rawX rawY t conf st) = Some (fx, Some fy)"
    if "conf = None \<or> (\<exists>c. conf = Some c \<and> MIN_CONFIDENCE cfg \<le> c)"
      and "speed (snd (calculateVelocity ?lx ?ly t st)) \<le> VELOCITY_THRESHOLD cfg"
    using that cv e o by (auto simp add: processGazeData_def Let_def)
  ultimately show ?thesis by blast
qed

theorem outlier_rejected_hold_steady_witness:
  "snd (processGazeData CONFIG_webgazer viewport0 80 64 2000 None afterFirstSample) =
     Some (126000 / 257, Some (100800 / 257)) \<and>
   filteredX (fst (processGazeData CONFIG_webgazer viewport0 80 64 2000 None afterFirstSample)) =
     filteredX afterFirstSample \<and>
   kalmanX (fst (processGazeData CONFIG_webgazer viewport0 80 64 2000 None afterFirstSample)) =
     kalmanX afterFirstSample"
  using outlier_rejected_hold_steady[OF afterFirstSample_fields(1,2) afterFirstSample_far,
          of 2000 None] afterFirstSample_slow
  by blast

text \<open>
  Claim C6 as stated fails for a far sample of low confidence: a prior filtered position
  exists, yet no replacement is returned.
\<close>

theorem outlier_low_confidence_counterexample:
  "filteredX afterFirstSample = Some (126000 / 257) \<and>
   filteredY afterFirstSample = Some (100800 / 257) \<and>
   sqrt ((lerpCoordinate CONFIG_webgazer 80 (innerWidth viewport0) - 126000 / 257)\<^sup>2 +
         (lerpCoordinate CONFIG_webgazer 64 (innerHeight viewport0) - 100800 / 257)\<^sup>2)
     > OUTLIER_THRESHOLD CONFIG_webgazer \<and>
   snd (processGazeData CONFIG_webgazer viewport0 80 64 2000 (Some (1 / 10)) afterFirstSample) = None"
proof -
  have "snd (processGazeData CONFIG_webgazer viewport0 80 64 2000 (Some (1 / 10)) afterFirstSample) = None"
    by (simp add: processGazeData_def CONFIG_webgazer_def)
  then show ?thesis
    using afterFirstSample_fields(1,2) afterFirstSample_far by blast
qed

text \<open>
  Without a prior filtered position the outlier rule does not apply, and a sample vetoed as
  a saccade gets no replacement.
\<close>

lemma isOutlier_without_prior:
  "filteredX st = None \<or> filteredY st = None \<Longrightarrow> \<not> isOutlier cfg a b st"
  by (auto simp: isOutlier_def split: option.splits)

lemma saccade_no_replacement:
  assumes "speed (snd (calculateVelocity (lerpCoordinate cfg rawX (innerWidth w))
             (lerpCoordinate cfg rawY (innerHeight w)) t st)) > VELOCITY_THRESHOLD cfg"
  shows "snd (processGazeData cfg w rawX rawY t conf st) = None"
  using assms
  by (cases "calculateVelocity (lerpCoordinate cfg rawX (innerWidth w))
               (lerpCoordinate cfg rawY (innerHeight w)) t st")
     (simp add: processGazeData_def Let_def)

subsection \<open>Velocity tracking fields\<close>

text \<open>
  Claim C7, as the code has it. A sample that carries no confidence below
  \<^verbatim>\<open>MIN_CONFIDENCE\<close>, and that is the first one or has a later timestamp than the stored
  one, stores its normalized coordinate and its timestamp in \<^verbatim>\<open>lastRawX\<close>,
  \<^verbatim>\<open>lastRawY\<close> and \<^verbatim>\<open>lastTimestamp\<close>, whether it is then accepted, rejected as a
  saccade or rejected as an outlier. A sample of low confidence leaves the whole state
  unchanged, and a sample whose timestamp is not later than the stored one leaves the three
  fields unchanged.
\<close>

theorem velocity_fields_update:
  "((conf = None \<or> (\<exists>c. conf = Some c \<and> MIN_CONFIDENCE cfg \<le> c)) \<and>
    (lastRawX st = None \<or> lastTimestamp st = None \<or>
     (\<exists>t0. lastTimestamp st = Some t0 \<and> t0 < t)) \<longrightarrow>
      lastRawX (fst (processGazeData cfg w rawX rawY t conf st)) =
        Some (lerpCoordinate cfg rawX (innerWidth w)) \<and>
      lastRawY (fst (processGazeData cfg w rawX rawY t conf st)) =
        Some (lerpCoordinate cfg rawY (innerHeight w)) \<and>
      lastTimestamp (fst (processGazeData cfg w rawX rawY t conf st)) = Some t) \<and>
   ((\<exists>c. conf = Some c \<and> c < MIN_CONFIDENCE cfg) \<longrightarrow>
      processGazeData cfg w rawX rawY t conf st = (st, None)) \<and>
   (lastRawX st \<noteq> None \<and> (\<exists>t0. lastTimestamp st = Some t0 \<and> t \<le> t0) \<longrightarrow>
      lastRawX (fst (processGazeData cfg w rawX rawY t conf st)) = lastRawX st \<and>
      lastRawY (fst (processGazeData cfg w rawX rawY t conf st)) = lastRawY st \<and>
      lastTimestamp (fst (processGazeData cfg w rawX rawY t conf st)) = lastTimestamp st)"
proof (intro conjI impI)
  let ?lx = "lerpCoordinate cfg rawX (innerWidth w)"
  let ?ly = "lerpCoordinate cfg rawY (innerHeight w)"
  obtain s1 v where cv: "calculateVelocity ?lx ?ly t st = (s1, v)"
    by (cases "calculateVelocity ?lx ?ly t st")
  have fields: "lastRawX (fst (processGazeData cfg w rawX rawY t conf st)) = lastRawX s1 \<and>
      lastRawY (fst (processGazeData cfg w rawX rawY t conf st)) = lastRawY s1 \<and>
      lastTimestamp (fst (processGazeData cfg w rawX rawY t conf st)) = lastTimestamp s1"
    if "\<not> (case conf of Some c \<Rightarrow> c < MIN_CONFIDENCE cfg | None \<Rightarrow> False)"
    using that cv by (simp add: processGazeData_def Let_def split: option.splits)
  {
    assume a: "(conf = None \<or> (\<exists>c. conf = Some c \<and> MIN_CONFIDENCE cfg \<le> c)) \<and>
      (lastRawX st = None \<or> lastTimestamp st = None \<or>
       (\<exists>t0. lastTimestamp st = Some t0 \<and> t0 < t))"
    then have c: "\<not> (case conf of Some c \<Rightarrow> c < MIN_CONFIDENCE cfg | None \<Rightarrow> False)"
      by (auto split: option.splits)
    from a have "lastRawX st = None \<or> lastTimestamp st = None \<or> num (lastTimestamp st) < t"
      by auto
    from calculateVelocity_fields[OF this, of ?lx ?ly] cv
    have "lastRawX s1 = Some ?lx" "lastRawY s1 = Some ?ly" "lastTimestamp s1 = Some t"
      by simp_all
    with fields[OF c]
    show "lastRawX (fst (processGazeData cfg w rawX rawY t conf st)) = Some ?lx"
      and "lastRawY (fst (processGazeData cfg w rawX rawY t conf st)) = Some ?ly"
      and "lastTimestamp (fst (processGazeData cfg w rawX rawY t conf st)) = Some t"
      by simp_all
  }
  {
    assume "\<exists>c. conf = Some c \<and> c < MIN_CONFIDENCE cfg"
    then show "processGazeData cfg w rawX rawY t conf st = (st, None)"
      by (auto simp: processGazeData_def)
  }
  {
    assume a: "lastRawX st \<noteq> None \<and> (\<exists>t0. lastTimestamp st = Some t0 \<and> t \<le> t0)"
    then obtain t0 where "lastTimestamp st = Some t0" "t \<le> t0" by blast
    with a calculateVelocity_stale[of st t0 t ?lx ?ly] cv have s1: "s1 = st" by simp
    have "lastRawX (fst (processGazeData cfg w rawX rawY t conf st)) = lastRawX st \<and>
      lastRawY (fst (processGazeData cfg w rawX rawY t conf st)) = lastRawY st \<and>
      lastTimestamp (fst (processGazeData cfg w rawX rawY t conf st)) = lastTimestamp st"
    proof (cases "case conf of Some c \<Rightarrow> c < MIN_CONFIDENCE cfg | None \<Rightarrow> False")
      case True
      then show ?thesis by (simp add: processGazeData_def)
    next
      case False
      from fields[OF this] s1 show ?thesis by simp
    qed
    then show "lastRawX (fst (processGazeData cfg w rawX rawY t conf st)) = lastRawX st"
      and "lastRawY (fst (processGazeData cfg w rawX rawY t conf st)) = lastRawY st"
      and "lastTimestamp (fst (processGazeData cfg w rawX rawY t conf st)) = lastTimestamp st"
      by simp_all
  }
qed

theorem velocity_fields_update_witness:
  "snd (processGazeData CONFIG_webgazer viewport0 80 64 1033 None afterFirstSample) = None \<and>
   lastRawX (fst (processGazeData CONFIG_webgazer viewport0 80 64 1033 None afterFirstSample)) =
     Some 0 \<and>
   lastTimestamp (fst (processGazeData CONFIG_webgazer viewport0 80 64 1033 None afterFirstSample)) =
     Some 1033 \<and>
   processGazeData CONFIG_webgazer viewport0 80 64 1033 (Some (1 / 10)) afterFirstSample =
     (afterFirstSample, None)"
proof -
  have a: "lastTimestamp afterFirstSample = Some 1000 \<and> (1000::real) < 1033"
    by (simp add: afterFirstSample_fields)
  have b: "Some (1 / 10) = Some (1 / 10 :: real) \<and> 1 / 10 < MIN_CONFIDENCE CONFIG_webgazer"
    by (simp add: CONFIG_webgazer_def)
  show ?thesis
    using velocity_fields_update[of None CONFIG_webgazer afterFirstSample 1033 viewport0 80 64]
      velocity_fields_update[of "Some (1 / 10)" CONFIG_webgazer afterFirstSample 1033 viewport0 80 64]
      a b afterFirstSample_saccade lerp_values(3)
    by (simp only:) blast
qed

text \<open>
  Claim C7 as stated fails for a sample of low confidence: after it the stored coordinate
  is still 500 and the stored timestamp still 1000, not the sample's 0 and 2000.
\<close>

theorem velocity_fields_low_confidence_counterexample:
  "lastRawX (fst (processGazeData CONFIG_webgazer viewport0 80 64 2000 (Some (1 / 10))
      afterFirstSample)) = Some 500 \<and>
   lastTimestamp (fst (processGazeData CONFIG_webgazer viewport0 80 64 2000 (Some (1 / 10))
      afterFirstSample)) = Some 1000 \<and>
   lerpCoordinate CONFIG_webgazer 80 (innerWidth viewport0) = 0"
  by (simp add: processGazeData_def afterFirstSample_fields lerp_values)
     (simp add: CONFIG_webgazer_def)

subsection \<open>Kalman filter convergence\<close>

text \<open>
  Claim C9, over the real numbers. Let one axis of the filter have process noise
  \<open>q > 0\<close>, measurement noise \<open>r > 0\<close> and covariance \<open>p \<ge> 0\<close>, and let the same
  measurement \<open>M\<close> be fed repeatedly. Every step brings the estimate closer to \<open>M\<close>
  and keeps it on the same side of \<open>M\<close>, so the estimate moves monotonically toward
  \<open>M\<close>; after \<open>n\<close> steps the error is at most \<open>(r / (q + r))^n\<close> times the initial
  error. Starting from the estimate 0 with which the code creates and resets the filter,
  the estimate is within 1 percent of \<open>M\<close> from step \<open>kalmanSteps q r\<close> on, a number
  computed from \<open>q\<close> and \<open>r\<close> alone, and for \<open>q = 8\<close>, \<open>r = 20\<close> from step 14 on.
\<close>

theorem kalman_converges:
  assumes "0 < kq ks" and "0 < kr ks" and "0 \<le> kp ks"
  shows "\<bar>kx (kalmanFeed M (Suc n) ks) - M\<bar> \<le> \<bar>kx (kalmanFeed M n ks) - M\<bar> \<and>
         (kx (kalmanFeed M n ks) \<le> M \<longrightarrow>
            kx (kalmanFeed M n ks) \<le> kx (kalmanFeed M (Suc n) ks) \<and>
            kx (kalmanFeed M (Suc n) ks) \<le> M) \<and>
         (M \<le> kx (kalmanFeed M n ks) \<longrightarrow>
            M \<le> kx (kalmanFeed M (Suc n) ks) \<and>
            kx (kalmanFeed M (Suc n) ks) \<le> kx (kalmanFeed M n ks)) \<and>
         \<bar>kx (kalmanFeed M n ks) - M\<bar> \<le> (kr ks / (kq ks + kr ks)) ^ n * \<bar>kx ks - M\<bar> \<and>
         (kx ks = 0 \<and> kalmanSteps (kq ks) (kr ks) \<le> n \<longrightarrow>
            \<bar>kx (kalmanFeed M n ks) - M\<bar> \<le> \<bar>M\<bar> / 100) \<and>
         (kx ks = 0 \<and> kq ks = 8 \<and> kr ks = 20 \<and> 14 \<le> n \<longrightarrow>
            \<bar>kx (kalmanFeed M n ks) - M\<bar> \<le> \<bar>M\<bar> / 100)"
proof -
  let ?s = "kalmanFeed M n ks" and ?rho = "kr ks / (kq ks + kr ks)"
  note g = kalmanFeed_good[OF assms, of M n]
  have q: "0 < kq ?s" and r: "0 < kr ?s" and p: "0 \<le> kp ?s" using g assms by simp_all
  note c = kalmanFilter_contracts[OF q r p, of M, folded kalmanFeed_Suc]
  note geo = kalmanFeed_geometric[OF assms, of M n]
  have small: "\<bar>kx ?s - M\<bar> \<le> \<bar>M\<bar> / 100" if "kx ks = 0" and "?rho ^ n \<le> 1 / 100"
  proof -
    have "\<bar>kx ?s - M\<bar> \<le> ?rho ^ n * \<bar>M\<bar>" using geo that(1) by simp
    also have "\<dots> \<le> (1 / 100) * \<bar>M\<bar>" using that(2) by (intro mult_right_mono) simp_all
    finally show ?thesis by simp
  qed
  have s1: "\<bar>kx ?s - M\<bar> \<le> \<bar>M\<bar> / 100" if "kx ks = 0 \<and> kalmanSteps (kq ks) (kr ks) \<le> n"
    using small that rho_power_small[OF assms(1,2), of n] by simp
  have s2: "\<bar>kx ?s - M\<bar> \<le> \<bar>M\<bar> / 100" if "kx ks = 0 \<and> kq ks = 8 \<and> kr ks = 20 \<and> 14 \<le> n"
    using small that rho_default_small[of n] by simp
  show ?thesis
    using c geo s1 s2 by blast
qed

theorem kalman_converges_witness:
  "\<bar>kx (kalmanFeed 500 14 kalman_init) - 500\<bar> \<le> \<bar>500\<bar> / 100 \<and>
   \<bar>kx (kalmanFeed 500 15 kalman_init) - 500\<bar> \<le> \<bar>kx (kalmanFeed 500 14 kalman_init) - 500\<bar> \<and>
   kalmanSteps 8 20 = 248"
proof -
  have a: "0 < kq kalman_init" "0 < kr kalman_init" "0 \<le> kp kalman_init"
    by (simp_all add: kalman_init_def)
  have b: "kx kalman_init = 0 \<and> kq kalman_init = 8 \<and> kr kalman_init = 20 \<and> (14::nat) \<le> 14"
    by (simp add: kalman_init_def)
  have c: "kalmanSteps 8 20 = 248"
    by (simp add: kalmanSteps_def)
  show ?thesis
    using kalman_converges[OF a, of 500 14] b c by simp
qed

subsection \<open>Calibration gate\<close>

text \<open>
  Claim C5. Take a session that is not calibrated, with no confirmed target and no
  completion flag in storage; the overlay is shown and clicks land on dots that still take
  them. With nine calibration points the session becomes calibrated exactly when
  \<^verbatim>\<open>CALIBRATION_POINTS * CLICKS_PER_POINT\<close> clicks have been taken (18 with the
  constants of the Python-server script, 27 with those of the WebGazer script). If the
  storage can be accessed, the flag is then in storage, and a new session on that storage,
  whatever its initial state, is calibrated by \<^verbatim>\<open>createCalibrationOverlay\<close> without
  an overlay being shown. The
  recalibration button of either script removes the flag, clears \<^verbatim>\<open>isCalibrated\<close> and
  \<^verbatim>\<open>calibrationClicks\<close>, and shows a fresh overlay.
\<close>

theorem calibration_completes:
  assumes "CALIBRATION_POINTS cfg = 9" and "0 < CLICKS_PER_POINT cfg"
    and "\<not> isCalibrated (pstate pg)" and "calibrationClicks (pstate pg) = 0"
    and "\<not> isCalibrationDone cfg pg"
    and "validClicks cfg (createCalibrationOverlay cfg pg) cs"
  shows "(isCalibrated (pstate (clickDots cfg (createCalibrationOverlay cfg pg) cs)) \<longleftrightarrow>
            length cs = CALIBRATION_POINTS cfg * CLICKS_PER_POINT cfg) \<and>
         (length cs = CALIBRATION_POINTS cfg * CLICKS_PER_POINT cfg \<and>
          localStorage pg \<noteq> None \<longrightarrow>
            isCalibrationDone cfg (clickDots cfg (createCalibrationOverlay cfg pg) cs) \<and>
            createCalibrationOverlay cfg
              (newSession s0 (localStorage (clickDots cfg (createCalibrationOverlay cfg pg) cs))) =
              newSession (s0\<lparr> isCalibrated := True \<rparr>)
                (localStorage (clickDots cfg (createCalibrationOverlay cfg pg) cs))) \<and>
         \<not> isCalibrationDone cfg
             (recalibrate cfg (clickDots cfg (createCalibrationOverlay cfg pg) cs)) \<and>
         \<not> isCalibrated (pstate
             (recalibrate cfg (clickDots cfg (createCalibrationOverlay cfg pg) cs))) \<and>
         calibrationClicks (pstate
             (recalibrate cfg (clickDots cfg (createCalibrationOverlay cfg pg) cs))) = 0 \<and>
         overlay (recalibrate cfg (clickDots cfg (createCalibrationOverlay cfg pg) cs)) =
           Some freshDots \<and>
         \<not> isCalibrationDone cfg
             (py_recalibrate cfg (clickDots cfg (createCalibrationOverlay cfg pg) cs)) \<and>
         \<not> isCalibrated (pstate
             (py_recalibrate cfg (clickDots cfg (createCalibrationOverlay cfg pg) cs))) \<and>
         calibrationClicks (pstate
             (py_recalibrate cfg (clickDots cfg (createCalibrationOverlay cfg pg) cs))) = 0 \<and>
         overlay (py_recalibrate cfg (clickDots cfg (createCalibrationOverlay cfg pg) cs)) =
           Some freshDots \<and>
         CALIBRATION_POINTS CONFIG_python * CLICKS_PER_POINT CONFIG_python = 18 \<and>
         CALIBRATION_POINTS CONFIG_webgazer * CLICKS_PER_POINT CONFIG_webgazer = 27"
proof -
  let ?pg0 = "createCalibrationOverlay cfg pg"
  let ?fin = "clickDots cfg ?pg0 cs"
  have inv: "collecting cfg ?pg0 0"
    by (rule fresh_collecting[OF assms(5,3,4,2)])
  have whenDone: "isCalibrated (pstate ?fin) \<longleftrightarrow>
      length cs = CALIBRATION_POINTS cfg * CLICKS_PER_POINT cfg"
    using clicks_complete[OF inv assms(1,6)] assms(1) by simp
  have pers: "isCalibrationDone cfg ?fin"
    if "length cs = CALIBRATION_POINTS cfg * CLICKS_PER_POINT cfg \<and> localStorage pg \<noteq> None"
  proof -
    have st: "localStorage ?pg0 \<noteq> None"
      using assms(5) that by (simp add: createCalibrationOverlay_def)
    show ?thesis
      using clicks_persist[OF inv assms(1,6) st] whenDone that by simp
  qed
  have rest: "createCalibrationOverlay cfg (newSession s0 (localStorage ?fin)) =
      newSession (s0\<lparr> isCalibrated := True \<rparr>) (localStorage ?fin)"
    if "length cs = CALIBRATION_POINTS cfg * CLICKS_PER_POINT cfg \<and> localStorage pg \<noteq> None"
    using restart_short_circuits[OF pers[OF that]] .
  have products: "CALIBRATION_POINTS CONFIG_python * CLICKS_PER_POINT CONFIG_python = 18"
    "CALIBRATION_POINTS CONFIG_webgazer * CLICKS_PER_POINT CONFIG_webgazer = 27"
    by (simp_all add: CONFIG_python_def CONFIG_webgazer_def)
  show ?thesis
    using whenDone pers rest recalibrate_not_started[of cfg ?fin]
      py_recalibrate_not_started[of cfg ?fin] products
    by blast
qed

theorem calibration_completes_witness:
  "length allDotsTwice = 18 \<and>
   isCalibrated (pstate (clickDots CONFIG_python
      (createCalibrationOverlay CONFIG_python firstSession) allDotsTwice)) \<and>
   isCalibrationDone CONFIG_python (clickDots CONFIG_python
      (createCalibrationOverlay CONFIG_python firstSession) allDotsTwice) \<and>
   isCalibrated (pstate (createCalibrationOverlay CONFIG_python
      (newSession py_initial (localStorage (clickDots CONFIG_python
         (createCalibrationOverlay CONFIG_python firstSession) allDotsTwice))))) \<and>
   \<not> isCalibrationDone CONFIG_python (py_recalibrate CONFIG_python (clickDots CONFIG_python
      (createCalibrationOverlay CONFIG_python firstSession) allDotsTwice))"
proof -
  have a: "CALIBRATION_POINTS CONFIG_python = 9" "0 < CLICKS_PER_POINT CONFIG_python"
    by (simp_all add: CONFIG_python_def)
  have b: "\<not> isCalibrated (pstate firstSession)" "calibrationClicks (pstate firstSession) = 0"
    "\<not> isCalibrationDone CONFIG_python firstSession"
    by (simp_all add: firstSession_def newSession_def py_initial_def isCalibrationDone_def)
  have b': "localStorage firstSession \<noteq> None"
    by (simp add: firstSession_def newSession_def)
  have c: "length allDotsTwice = CALIBRATION_POINTS CONFIG_python * CLICKS_PER_POINT CONFIG_python"
    "length allDotsTwice = 18"
    by (simp_all add: allDotsTwice_def CONFIG_python_def)
  have d: "isCalibrated (pstate (newSession (py_initial\<lparr> isCalibrated := True \<rparr>) store))"
    for store
    by (simp add: newSession_def)
  show ?thesis
    using calibration_completes[OF a b allDotsTwice_valid, of py_initial] b' c d
    by simp
qed

subsection \<open>Liveness watchdog\<close>

text \<open>
  Claim C10, as the code has it. A run of the watchdog callback calls
  \<^verbatim>\<open>recoverWebGazer\<close> exactly when the session is calibrated, WebGazer is marked ready,
  \<^verbatim>\<open>lastGazeTime\<close> is positive and more than \<^verbatim>\<open>WATCHDOG_TIMEOUT\<close> (5000 ms) has
  passed since \<^verbatim>\<open>lastGazeTime\<close>; in particular it calls nothing while the session is
  not calibrated or WebGazer is not ready. After a sample, that is when the timeout has
  passed since the sample. \<^verbatim>\<open>lastGazeTime\<close> is stamped by samples, by
  \<^verbatim>\<open>initWebGazer\<close> and by the resume timer of a recovery, so after a recovery the run
  one interval later (3000 ms) calls nothing, and with continued silence the recovery is
  called again once the timeout has passed again since the resume stamp. With the library
  loaded and \<^verbatim>\<open>pause\<close> not throwing, the recovery is the pause and resume cycle.
\<close>

theorem watchdog_recovery:
  "watchdogTick cfg now st =
     (isCalibrated st \<and> isWebGazerReady st \<and> lastGazeTime st > 0 \<and>
      now - lastGazeTime st > WATCHDOG_TIMEOUT cfg) \<and>
   (\<not> isCalibrated st \<or> \<not> isWebGazerReady st \<longrightarrow> \<not> watchdogTick cfg now st) \<and>
   watchdogTick cfg now (fst (gazeListener cfg w sampleTime perfNow (Some d) st)) =
     (isCalibrated st \<and> isWebGazerReady st \<and> sampleTime > 0 \<and>
      now - sampleTime > WATCHDOG_TIMEOUT cfg) \<and>
   (watchdogTick cfg now st \<and> WATCHDOG_INTERVAL cfg - 500 \<le> WATCHDOG_TIMEOUT cfg \<longrightarrow>
      \<not> watchdogTick cfg (now + WATCHDOG_INTERVAL cfg) (resumeTimer (now + 500) st)) \<and>
   (watchdogTick cfg now st \<and> 0 \<le> now \<and> now + 500 + WATCHDOG_TIMEOUT cfg < later \<longrightarrow>
      watchdogTick cfg later (resumeTimer (now + 500) st)) \<and>
   (webgazerDefined up \<and> \<not> pauseThrows up \<longrightarrow>
      recoverWebGazer up = Some Pause_then_resume_in_500) \<and>
   WATCHDOG_TIMEOUT CONFIG_webgazer = 5000 \<and> WATCHDOG_INTERVAL CONFIG_webgazer = 3000"
proof -
  have "watchdogTick cfg now (fst (gazeListener cfg w sampleTime perfNow (Some d) st)) =
     (isCalibrated st \<and> isWebGazerReady st \<and> sampleTime > 0 \<and>
      now - sampleTime > WATCHDOG_TIMEOUT cfg)"
    using gazeListener_stamps[of cfg w sampleTime perfNow d st]
    by (auto simp: watchdogTick_def Let_def)
  then show ?thesis
    by (auto simp: watchdogTick_def resumeTimer_def recoverWebGazer_def Let_def
          CONFIG_webgazer_def)
qed

theorem watchdog_recovery_witness:
  "watchdogTick CONFIG_webgazer 7000 (pstate restartedSession) \<and>
   \<not> watchdogTick CONFIG_webgazer 10000 (resumeTimer 7500 (pstate restartedSession)) \<and>
   \<not> watchdogTick CONFIG_webgazer 7000 wg_initial \<and>
   recoverWebGazer upstream0 = Some Pause_then_resume_in_500"
proof -
  have a: "isCalibrated (pstate restartedSession) \<and> isWebGazerReady (pstate restartedSession) \<and>
      lastGazeTime (pstate restartedSession) > 0 \<and>
      7000 - lastGazeTime (pstate restartedSession) > WATCHDOG_TIMEOUT CONFIG_webgazer"
    by (simp add: restartedSession_fields CONFIG_webgazer_def)
  have b: "WATCHDOG_INTERVAL CONFIG_webgazer - 500 \<le> WATCHDOG_TIMEOUT CONFIG_webgazer"
    "7000 + WATCHDOG_INTERVAL CONFIG_webgazer = 10000"
    by (simp_all add: CONFIG_webgazer_def)
  have c: "\<not> isCalibrated wg_initial" by (simp add: wg_initial_def)
  have d: "webgazerDefined upstream0 \<and> \<not> pauseThrows upstream0" by (simp add: upstream0_def)
  have e: "(7000::real) + 500 = 7500" by simp
  show ?thesis
    using watchdog_recovery[where cfg = CONFIG_webgazer and now = 7000
            and st = "pstate restartedSession" and up = upstream0]
      watchdog_recovery[where cfg = CONFIG_webgazer and now = 7000
            and st = wg_initial and up = upstream0] a b c d e
    by metis
qed

text \<open>
  Claim C10 as stated fails for a session that has never received a sample: started at time
  1000 with the completion flag in storage, and given no sample at all, its watchdog calls
  the recovery at time 7000, not at 10000, and again at 13000.
\<close>

theorem watchdog_without_sample_counterexample:
  "lastGazeTime (pstate restartedSession) = 1000 \<and>
   watchdogTick CONFIG_webgazer 7000 (pstate restartedSession) \<and>
   \<not> watchdogTick CONFIG_webgazer 10000 (resumeTimer 7500 (pstate restartedSession)) \<and>
   watchdogTick CONFIG_webgazer 13000 (resumeTimer 7500 (pstate restartedSession))"
  by (simp add: watchdogTick_def resumeTimer_def restartedSession_fields Let_def)
     (simp add: CONFIG_webgazer_def)

end
